theory Spec2Isabelle
  imports Complex_Main "HOL-Library.Sublist" "HOL-Library.Monad_Syntax" "HOL-Library.Multiset"
begin

section \<open>Text primitives\<close>

text \<open>
  JavaScript strings are modelled as ASCII \<^typ>\<open>string\<close>s. \<open>toUpperCase\<close> and
  \<open>toLowerCase\<close> act on the 26 ASCII letters (tickers, keywords and the regular
  expression of the extractor are all ASCII); \<open>String.prototype.includes\<close> is the
  contiguous-substring test.
\<close>

definition lowerLetters :: string where
  "lowerLetters = ''abcdefghijklmnopqrstuvwxyz''"

definition upperLetters :: string where
  "upperLetters = ''ABCDEFGHIJKLMNOPQRSTUVWXYZ''"

definition toUpperChar :: "char \<Rightarrow> char" where
  "toUpperChar c = (case map_of (zip lowerLetters upperLetters) c of Some u \<Rightarrow> u | None \<Rightarrow> c)"

definition toLowerChar :: "char \<Rightarrow> char" where
  "toLowerChar c = (case map_of (zip upperLetters lowerLetters) c of Some l \<Rightarrow> l | None \<Rightarrow> c)"

definition toUpperCase :: "string \<Rightarrow> string" where
  "toUpperCase s = map toUpperChar s"

definition toLowerCase :: "string \<Rightarrow> string" where
  "toLowerCase s = map toLowerChar s"

fun str_includes :: "string \<Rightarrow> string \<Rightarrow> bool" where
  "str_includes [] w = (w = [])"
| "str_includes (c # cs) w = (prefix w (c # cs) \<or> str_includes cs w)"

section \<open>Keyword sentiment: \<open>detectSentiment\<close> (helpers/sentiment.ts)\<close>

definition bullish :: "string list" where
  "bullish = [''moon'', ''rocket'', ''buy'', ''calls'', ''long'', ''bullish'', ''yolo'', ''tendies'',
    ''gains'', ''diamond'', ''squeeze'', ''pump'', ''green'', ''up'', ''breakout'', ''undervalued'',
    ''accumulate'']"

definition bearish :: "string list" where
  "bearish = [''puts'', ''short'', ''sell'', ''bearish'', ''crash'', ''dump'', ''drill'', ''tank'',
    ''rip'', ''red'', ''down'', ''bag'', ''overvalued'', ''bubble'', ''avoid'']"

text \<open>\<open>for (const w of ws) if (lower.includes(w)) n++\<close>\<close>

primrec countIncluded :: "string \<Rightarrow> string list \<Rightarrow> nat" where
  "countIncluded lower [] = 0"
| "countIncluded lower (w # ws) = (if str_includes lower w then 1 else 0) + countIncluded lower ws"

definition detectSentiment :: "string \<Rightarrow> real" where
  "detectSentiment text =
     (let lower = toLowerCase text;
          bull = countIncluded lower bullish;
          bear = countIncluded lower bearish;
          total = bull + bear
      in if total = 0 then 0 else (real bull - real bear) / real total)"

text \<open>
  The specification's wording, for comparison: the counts are the numbers of
  case-insensitive substring \<^emph>\<open>occurrences\<close> of the listed words in the text, an
  occurrence being a position at which the word starts.
\<close>

primrec countOccurrences :: "string \<Rightarrow> string \<Rightarrow> nat" where
  "countOccurrences [] w = 0"
| "countOccurrences (c # cs) w = (if prefix w (c # cs) then 1 else 0) + countOccurrences cs w"

definition spec_keywordSentiment :: "string \<Rightarrow> real" where
  "spec_keywordSentiment text =
     (let lower = toLowerCase text;
          bullCount = sum_list (map (countOccurrences lower) bullish);
          bearCount = sum_list (map (countOccurrences lower) bearish)
      in if bullCount + bearCount = 0 then 0
         else (real bullCount - real bearCount) / real (bullCount + bearCount))"

section \<open>Ticker extraction: \<open>extractTickers\<close> (helpers/crypto.ts, the ticker helpers)\<close>

definition TICKER_BLACKLIST :: "string list" where
  "TICKER_BLACKLIST = [
    ''CEO'', ''CFO'', ''COO'', ''CTO'', ''IPO'', ''EPS'', ''GDP'', ''SEC'', ''FDA'', ''USA'',
    ''USD'', ''ETF'', ''NYSE'', ''API'', ''ATH'', ''ATL'', ''IMO'', ''FOMO'', ''YOLO'', ''DD'',
    ''TA'', ''FA'', ''ROI'', ''PE'', ''PB'', ''PS'', ''EV'', ''DCF'', ''WSB'', ''RIP'',
    ''LOL'', ''OMG'', ''WTF'', ''FUD'', ''HODL'', ''APE'', ''MOASS'', ''DRS'', ''NFT'',
    ''DAO'', ''THE'', ''AND'', ''FOR'', ''ARE'', ''BUT'', ''NOT'', ''YOU'', ''ALL'', ''CAN'',
    ''HER'', ''WAS'', ''ONE'', ''OUR'', ''OUT'', ''DAY'', ''HAD'', ''HAS'', ''HIS'', ''HOW'',
    ''ITS'', ''LET'', ''MAY'', ''NEW'', ''NOW'', ''OLD'', ''SEE'', ''WAY'', ''WHO'', ''BOY'',
    ''DID'', ''GET'', ''HIM'', ''HIT'', ''LOW'', ''MAN'', ''RUN'', ''SAY'', ''SHE'', ''TOO'',
    ''USE'', ''DAD'', ''MOM'', ''GOT'', ''PUT'', ''SAW'', ''SAT'', ''SET'', ''SIT'', ''TRY'',
    ''THAT'', ''THIS'', ''WITH'', ''HAVE'', ''FROM'', ''THEY'', ''BEEN'', ''CALL'', ''WILL'',
    ''EACH'', ''MAKE'', ''LIKE'', ''TIME'', ''JUST'', ''KNOW'', ''TAKE'', ''COME'', ''MADE'',
    ''FIND'', ''MORE'', ''LONG'', ''HERE'', ''MANY'', ''SOME'', ''THAN'', ''THEM'', ''THEN'',
    ''ONLY'', ''OVER'', ''SUCH'', ''YEAR'', ''INTO'', ''MOST'', ''ALSO'', ''BACK'', ''GOOD'',
    ''WELL'', ''EVEN'', ''WANT'', ''GIVE'', ''MUCH'', ''WORK'', ''FIRST'', ''AFTER'', ''AS'',
    ''AT'', ''BE'', ''BY'', ''DO'', ''GO'', ''IF'', ''IN'', ''IS'', ''IT'', ''MY'', ''NO'',
    ''OF'', ''ON'', ''OR'', ''SO'', ''TO'', ''UP'', ''US'', ''WE'', ''AN'', ''AM'', ''AH'',
    ''OH'', ''OK'', ''HI'', ''YA'', ''YO'', ''BULL'', ''BEAR'', ''CALL'', ''PUTS'', ''HOLD'',
    ''SELL'', ''MOON'', ''PUMP'', ''DUMP'', ''BAGS'', ''TEND'', ''START'', ''ABOUT'', ''NAME'',
    ''NEXT'', ''PLAY'', ''LIVE'', ''GAME'', ''BEST'', ''LINK'', ''READ'', ''POST'', ''NEWS'',
    ''FREE'', ''LOOK'', ''HELP'', ''OPEN'', ''FULL'', ''VIEW'', ''REAL'', ''SEND'', ''HIGH'',
    ''DROP'', ''FAST'', ''SAFE'', ''RISK'', ''TURN'', ''PLAN'', ''DEAL'', ''MOVE'', ''HUGE'',
    ''EASY'', ''HARD'', ''LATE'', ''WAIT'', ''SOON'', ''STOP'', ''EXIT'', ''GAIN'', ''LOSS'',
    ''GROW'', ''FALL'', ''JUMP'', ''KEEP'', ''COPY'', ''EDIT'', ''SAVE'', ''NOTE'', ''TIPS'',
    ''IDEA'', ''PLUS'', ''ZERO'', ''SELF'', ''BOTH'', ''BETA'', ''TEST'', ''INFO'', ''DATA'',
    ''CASH'', ''WHAT'', ''WHEN'', ''WHERE'', ''WHY'', ''WATCH'', ''LOVE'', ''HATE'', ''TECH'',
    ''HOPE'', ''FEAR'', ''WEEK'', ''LAST'', ''PART'', ''SIDE'', ''STEP'', ''SURE'', ''TELL'',
    ''THINK'', ''TOLD'', ''TRUE'', ''TURN'', ''TYPE'', ''UNIT'', ''USED'', ''VERY'', ''WANT'',
    ''WENT'', ''WERE'', ''YEAH'', ''YOUR'', ''ELSE'', ''AWAY'', ''OTHER'', ''PRICE'',
    ''THEIR'', ''STILL'', ''CHEAP'', ''THESE'', ''LEAP'', ''EVERY'', ''SINCE'', ''BEING'',
    ''THOSE'', ''DOING'', ''COULD'', ''WOULD'', ''SHOULD'', ''MIGHT'', ''MUST'', ''SHALL'']"

text \<open>
  The extractor's regular expression, flags \<open>gi\<close>:
  \<^verbatim>\<open>\$([A-Z]{1,5})\b|\b([A-Z]{2,5})\b(?=\s+(?:calls?|puts?|stock|shares?|moon|rocket|yolo|buy|sell|long|short))\<close>
  Under the \<open>i\<close> flag \<open>[A-Z]\<close> matches the ASCII letters of both cases; \<open>\b\<close> is a
  boundary between a word character \<open>[A-Za-z0-9_]\<close> and a non-word character or an end
  of the text; \<open>\s\<close> is ASCII white space. The matcher below follows the backtracking
  semantics: alternatives left to right, greedy counts from the largest down.
\<close>

definition isAsciiLetter :: "char \<Rightarrow> bool" where
  "isAsciiLetter c = (c \<in> set lowerLetters \<or> c \<in> set upperLetters)"

definition isWordChar :: "char \<Rightarrow> bool" where
  "isWordChar c = (isAsciiLetter c \<or> c \<in> set ''0123456789_'')"

definition isSpaceChar :: "char \<Rightarrow> bool" where
  "isSpaceChar c = (c \<in> set [CHR '' '', CHR 0x09, CHR 0x0A, CHR 0x0B, CHR 0x0C, CHR 0x0D])"

text \<open>\<open>\b\<close> between the character before the position (if any) and the rest of the text.\<close>

definition wordBoundary :: "char option \<Rightarrow> string \<Rightarrow> bool" where
  "wordBoundary prev rest =
     ((case prev of None \<Rightarrow> False | Some p \<Rightarrow> isWordChar p)
        \<noteq> (case rest of [] \<Rightarrow> False | c # _ \<Rightarrow> isWordChar c))"

text \<open>
  A greedy quantifier \<open>{lo,hi}\<close> over a character class: the counts it tries, largest
  first, given the text it stands at.
\<close>

definition greedyCounts :: "(char \<Rightarrow> bool) \<Rightarrow> nat \<Rightarrow> nat \<Rightarrow> string \<Rightarrow> nat list" where
  "greedyCounts cls lo hi s = rev [lo ..< Suc (min hi (length (takeWhile cls s)))]"

text \<open>
  The alternatives of the lookahead group. \<open>calls?\<close>, \<open>puts?\<close> and \<open>shares?\<close> end the
  expression, so each matches exactly where its stem does.
\<close>

definition contextKeywords :: "string list" where
  "contextKeywords = [''call'', ''put'', ''stock'', ''share'', ''moon'', ''rocket'', ''yolo'', ''buy'',
    ''sell'', ''long'', ''short'']"

text \<open>\<open>(?=\s+(?:...))\<close> at the text \<open>s\<close>.\<close>

definition contextLookahead :: "string \<Rightarrow> bool" where
  "contextLookahead s =
     list_ex (\<lambda>m. list_ex (\<lambda>k. prefix k (toLowerCase (drop m s))) contextKeywords)
       (greedyCounts isSpaceChar 1 (length s) s)"

text \<open>First alternative, \<open>\$([A-Z]{1,5})\b\<close>: the captured group and the length of the match.\<close>

definition matchCashtag :: "string \<Rightarrow> (string \<times> nat) option" where
  "matchCashtag s =
     (case s of
        [] \<Rightarrow> None
      | c # r \<Rightarrow>
          if c = CHR ''$'' then
            (case find (\<lambda>n. wordBoundary (Some (r ! (n - 1))) (drop n r))
                    (greedyCounts isAsciiLetter 1 5 r) of
               None \<Rightarrow> None
             | Some n \<Rightarrow> Some (take n r, Suc n))
          else None)"

text \<open>Second alternative, \<open>\b([A-Z]{2,5})\b(?=...)\<close>.\<close>

definition matchBareToken :: "char option \<Rightarrow> string \<Rightarrow> (string \<times> nat) option" where
  "matchBareToken prev s =
     (if wordBoundary prev s then
        (case find (\<lambda>n. wordBoundary (Some (s ! (n - 1))) (drop n s) \<and> contextLookahead (drop n s))
                (greedyCounts isAsciiLetter 2 5 s) of
           None \<Rightarrow> None
         | Some n \<Rightarrow> Some (take n s, n))
      else None)"

definition regexMatchAt :: "char option \<Rightarrow> string \<Rightarrow> (string \<times> nat) option" where
  "regexMatchAt prev s =
     (case matchCashtag s of Some m \<Rightarrow> Some m | None \<Rightarrow> matchBareToken prev s)"

text \<open>\<open>Set.prototype.add\<close> on a set kept in insertion order.\<close>

definition setAdd :: "'a \<Rightarrow> 'a list \<Rightarrow> 'a list" where
  "setAdd x xs = (if x \<in> set xs then xs else xs @ [x])"

text \<open>
  The \<open>while ((match = regex.exec(text)) !== null)\<close> loop: \<open>prev\<close> is the character
  before the current position, \<open>rest\<close> the text from \<open>lastIndex\<close> on. A match has at
  least one character, so after a match of length \<open>len\<close> at \<open>c # cs\<close> the text left is
  \<open>drop (len - 1) cs\<close>.
\<close>

function extractLoop :: "string list \<Rightarrow> char option \<Rightarrow> string \<Rightarrow> string list \<Rightarrow> string list" where
  "extractLoop customSet prev [] matches = matches"
| "extractLoop customSet prev (c # cs) matches =
     (case regexMatchAt prev (c # cs) of
        None \<Rightarrow> extractLoop customSet (Some c) cs matches
      | Some (grp, len) \<Rightarrow>
          (let ticker = toUpperCase grp
           in extractLoop customSet (Some (last (take len (c # cs)))) (drop (len - 1) cs)
                (if 2 \<le> length ticker \<and> length ticker \<le> 5 \<and> ticker \<notin> set TICKER_BLACKLIST
                    \<and> ticker \<notin> set customSet
                 then setAdd ticker matches else matches)))"
  by pat_completeness auto
termination
  by (relation "measure (\<lambda>(customSet, prev, rest, matches). length rest)") auto

definition extractTickers :: "string \<Rightarrow> string list \<Rightarrow> string list" where
  "extractTickers text customBlacklist =
     extractLoop (map toUpperCase customBlacklist) None text []"

text \<open>What the loop keeps true of every ticker it has added.\<close>

definition tickerOk :: "string list \<Rightarrow> string \<Rightarrow> bool" where
  "tickerOk customSet t =
     ((\<forall>c\<in>set t. c \<in> set upperLetters) \<and> 2 \<le> length t \<and> length t \<le> 5
      \<and> t \<notin> set TICKER_BLACKLIST \<and> t \<notin> set customSet)"

section \<open>The ticker validation cache: \<open>ValidTickerCache\<close> (helpers/crypto.ts, the ticker helpers)\<close>

text \<open>
  \<open>secTickers\<close> is \<open>null\<close> until the first successful refresh. The broker's asset lookup
  is a capability: \<open>getAsset\<close> answers an asset with its \<open>tradable\<close> flag, \<open>null\<close>, or
  throws. The symbols passed to it are logged beside the cache, oldest first, so that
  the external calls of an execution can be counted.
\<close>

record ValidTickerCache =
  secTickers :: "string set option"
  lastSecRefresh :: int
  alpacaCache :: "string \<rightharpoonup> bool"

datatype asset_reply = Asset bool | NoAsset | AssetError

type_synonym validation_state = "ValidTickerCache \<times> string list"

definition isKnownSecTicker :: "ValidTickerCache \<Rightarrow> string \<Rightarrow> bool" where
  "isKnownSecTicker tc symbol =
     (case secTickers tc of None \<Rightarrow> False | Some s \<Rightarrow> toUpperCase symbol \<in> s)"

definition getCachedValidation :: "ValidTickerCache \<Rightarrow> string \<Rightarrow> bool option" where
  "getCachedValidation tc symbol = alpacaCache tc (toUpperCase symbol)"

definition setCachedValidation :: "string \<Rightarrow> bool \<Rightarrow> ValidTickerCache \<Rightarrow> ValidTickerCache" where
  "setCachedValidation symbol isValid tc =
     tc\<lparr>alpacaCache := (alpacaCache tc)(toUpperCase symbol \<mapsto> isValid)\<rparr>"

definition validateWithAlpaca ::
  "(string \<Rightarrow> asset_reply) \<Rightarrow> string \<Rightarrow> validation_state \<Rightarrow> bool \<times> validation_state" where
  "validateWithAlpaca getAsset symbol st =
     (let tc = fst st; calls = snd st; upper = toUpperCase symbol
      in case alpacaCache tc upper of
           Some cached \<Rightarrow> (cached, st)
         | None \<Rightarrow>
             (case getAsset upper of
                Asset tradable \<Rightarrow>
                  (tradable, (tc\<lparr>alpacaCache := (alpacaCache tc)(upper \<mapsto> tradable)\<rparr>, calls @ [upper]))
              | NoAsset \<Rightarrow>
                  (False, (tc\<lparr>alpacaCache := (alpacaCache tc)(upper \<mapsto> False)\<rparr>, calls @ [upper]))
              | AssetError \<Rightarrow>
                  (False, (tc\<lparr>alpacaCache := (alpacaCache tc)(upper \<mapsto> False)\<rparr>, calls @ [upper]))))"

section \<open>The gatherers' promotion loops\<close>

text \<open>
  Of a \<open>Signal\<close> the fields below are modelled; the provenance strings and the creation
  timestamp are left out. Numbers are real numbers: rounding is not modelled.
\<close>

record Signal =
  symbol :: string
  source :: string
  sentiment :: real
  raw_sentiment :: real
  volume :: nat
  freshness :: real
  source_weight :: real

text \<open>
  \<open>calculateTimeDecay\<close>; \<open>SOURCE_CONFIG.decayHalfLifeMinutes\<close> is a parameter (the
  configuration module is not part of the sources at hand), \<open>now\<close> is \<open>Date.now()\<close>.
\<close>

definition calculateTimeDecay :: "real \<Rightarrow> int \<Rightarrow> real \<Rightarrow> real" where
  "calculateTimeDecay halfLife now postTimestamp =
     (let ageMinutes = (real_of_int now - postTimestamp * 1000) / 60000;
          decay = (1 / 2) powr (ageMinutes / halfLife)
      in max (2 / 10) (min 1 decay))"

subsection \<open>The Reddit gatherer, \<open>gatherReddit\<close> (default/index.ts): the loop over \<open>tickerData\<close>\<close>

record TickerAggregate =
  mentions :: nat
  weightedSentiment :: real
  rawSentiment :: real
  totalQuality :: real
  freshestPost :: real

definition redditSignal :: "real \<Rightarrow> int \<Rightarrow> string \<Rightarrow> TickerAggregate \<Rightarrow> Signal" where
  "redditSignal halfLife now sy d =
     (let avgRawSentiment = rawSentiment d / real (mentions d);
          avgQuality = totalQuality d / real (mentions d);
          finalSentiment = (if totalQuality d > 0 then weightedSentiment d / real (mentions d)
                            else avgRawSentiment * (1 / 2))
      in \<lparr>symbol = sy, source = ''reddit'', sentiment = finalSentiment,
          raw_sentiment = avgRawSentiment, volume = mentions d,
          freshness = calculateTimeDecay halfLife now (freshestPost d),
          source_weight = avgQuality\<rparr>)"

fun redditPromote ::
  "(string \<Rightarrow> asset_reply) \<Rightarrow> real \<Rightarrow> int \<Rightarrow> (string \<times> TickerAggregate) list
     \<Rightarrow> Signal list \<times> validation_state \<Rightarrow> Signal list \<times> validation_state" where
  "redditPromote getAsset halfLife now [] acc = acc"
| "redditPromote getAsset halfLife now ((sy, d) # rest) (signals, st) =
     (if mentions d \<ge> 2 then
        (if \<not> isKnownSecTicker (fst st) sy then
           (case getCachedValidation (fst st) sy of
              Some False \<Rightarrow> redditPromote getAsset halfLife now rest (signals, st)
            | Some True \<Rightarrow>
                redditPromote getAsset halfLife now rest
                  (signals @ [redditSignal halfLife now sy d], st)
            | None \<Rightarrow>
                (case validateWithAlpaca getAsset sy st of
                   (isValid, st') \<Rightarrow>
                     if \<not> isValid then redditPromote getAsset halfLife now rest (signals, st')
                     else redditPromote getAsset halfLife now rest
                            (signals @ [redditSignal halfLife now sy d], st')))
         else redditPromote getAsset halfLife now rest
                (signals @ [redditSignal halfLife now sy d], st))
      else redditPromote getAsset halfLife now rest (signals, st))"

subsection \<open>The SEC EDGAR gatherer, \<open>gatherSECFilings\<close>: the loop over the feed's entries\<close>

text \<open>
  \<open>resolveTicker\<close> stands for \<open>resolveTickerFromCompanyName\<close> (its own fetch and cache
  are not modelled); \<open>updated\<close> is the entry's date as milliseconds. The two source
  weights come from \<open>SOURCE_CONFIG.weights\<close>.
\<close>

record SecEntry =
  company :: string
  form :: string
  updated :: int

record SecWeights =
  sec_8k :: real
  sec_4 :: real

definition calculateSECFreshness :: "int \<Rightarrow> int \<Rightarrow> real" where
  "calculateSECFreshness now updatedDate =
     (let ageMs = now - updatedDate;
          ageHours = real_of_int ageMs / (1000 * 60 * 60)
      in if ageHours < 1 then 1
         else if ageHours < 4 then 9 / 10
         else if ageHours < 12 then 7 / 10
         else if ageHours < 24 then 5 / 10
         else 3 / 10)"

definition secSignal :: "SecWeights \<Rightarrow> int \<Rightarrow> string \<Rightarrow> SecEntry \<Rightarrow> Signal" where
  "secSignal w now ticker e =
     (let sourceWeight = (if form e = ''8-K'' then sec_8k w else sec_4 w);
          fresh = calculateSECFreshness now (updated e);
          sent = (if form e = ''8-K'' then 3 / 10 else 2 / 10)
      in \<lparr>symbol = ticker, source = ''sec_edgar'', sentiment = sent * sourceWeight * fresh,
          raw_sentiment = sent, volume = 1, freshness = fresh, source_weight = sourceWeight\<rparr>)"

fun secPromote ::
  "(string \<Rightarrow> asset_reply) \<Rightarrow> (string \<Rightarrow> string option) \<Rightarrow> SecWeights \<Rightarrow> int \<Rightarrow> SecEntry list
     \<Rightarrow> Signal list \<times> validation_state \<Rightarrow> Signal list \<times> validation_state" where
  "secPromote getAsset resolveTicker w now [] acc = acc"
| "secPromote getAsset resolveTicker w now (e # rest) (signals, st) =
     (case resolveTicker (company e) of
        None \<Rightarrow> secPromote getAsset resolveTicker w now rest (signals, st)
      | Some ticker \<Rightarrow>
          if ticker = [] then secPromote getAsset resolveTicker w now rest (signals, st)
          else
            (case getCachedValidation (fst st) ticker of
               Some False \<Rightarrow> secPromote getAsset resolveTicker w now rest (signals, st)
             | Some True \<Rightarrow>
                 secPromote getAsset resolveTicker w now rest (signals @ [secSignal w now ticker e], st)
             | None \<Rightarrow>
                 (case validateWithAlpaca getAsset ticker st of
                    (isValid, st') \<Rightarrow>
                      if \<not> isValid then secPromote getAsset resolveTicker w now rest (signals, st')
                      else secPromote getAsset resolveTicker w now rest
                             (signals @ [secSignal w now ticker e], st'))))"

text \<open>\<open>for (const entry of entries.slice(0, 15))\<close>, from an empty signal list.\<close>

definition gatherSECFilings ::
  "(string \<Rightarrow> asset_reply) \<Rightarrow> (string \<Rightarrow> string option) \<Rightarrow> SecWeights \<Rightarrow> int \<Rightarrow> SecEntry list
     \<Rightarrow> validation_state \<Rightarrow> Signal list \<times> validation_state" where
  "gatherSECFilings getAsset resolveTicker w now entries st =
     secPromote getAsset resolveTicker w now (take 15 entries) ([], st)"

definition gatherRedditPromotion ::
  "(string \<Rightarrow> asset_reply) \<Rightarrow> real \<Rightarrow> int \<Rightarrow> (string \<times> TickerAggregate) list
     \<Rightarrow> validation_state \<Rightarrow> Signal list \<times> validation_state" where
  "gatherRedditPromotion getAsset halfLife now tickerData st =
     redditPromote getAsset halfLife now tickerData ([], st)"

text \<open>
  Two relations used to state what a promotion loop preserves: the cache \<open>tc\<close> has the
  authoritative set of \<open>tc0\<close> and every validation cached in \<open>tc0\<close>; and every logged
  call is for a symbol that \<open>tc0\<close> had no cached validation for.
\<close>

definition cacheExtends :: "ValidTickerCache \<Rightarrow> ValidTickerCache \<Rightarrow> bool" where
  "cacheExtends tc0 tc =
     (secTickers tc = secTickers tc0 \<and> (\<forall>k v. alpacaCache tc0 k = Some v \<longrightarrow> alpacaCache tc k = Some v))"

definition callsUncached :: "ValidTickerCache \<Rightarrow> string list \<Rightarrow> bool" where
  "callsUncached tc0 calls = (\<forall>u\<in>set calls. alpacaCache tc0 u = None)"

definition callsOutsideSec :: "ValidTickerCache \<Rightarrow> string list \<Rightarrow> bool" where
  "callsOutsideSec tc0 calls = (\<forall>u\<in>set calls. \<not> isKnownSecTicker tc0 u)"

text \<open>
  The cache \<open>tc\<close> holds exactly the validations of \<open>tc0\<close> and one for each logged call,
  and no symbol was asked about twice or while \<open>tc0\<close> had a validation for it.
\<close>

definition callsTracked :: "ValidTickerCache \<Rightarrow> ValidTickerCache \<Rightarrow> string list \<Rightarrow> bool" where
  "callsTracked tc0 tc calls =
     (dom (alpacaCache tc) = dom (alpacaCache tc0) \<union> set calls \<and> distinct calls
      \<and> set calls \<inter> dom (alpacaCache tc0) = {})"

text \<open>
  The symbols a gatherer has to ask the broker about, given the cache \<open>tc0\<close> it starts
  with. SEC filings: the upper-cased ticker of every entry that resolves to a ticker
  with no cached validation. Reddit: the upper-cased symbol of every aggregate with at
  least two mentions that is neither in the authoritative set nor has a cached
  validation.
\<close>

definition secWanted :: "(string \<Rightarrow> string option) \<Rightarrow> ValidTickerCache \<Rightarrow> SecEntry list \<Rightarrow> string set" where
  "secWanted resolveTicker tc0 entries =
     {u. \<exists>e\<in>set entries. \<exists>ticker. resolveTicker (company e) = Some ticker \<and> ticker \<noteq> []
            \<and> u = toUpperCase ticker \<and> alpacaCache tc0 u = None}"

definition redditWanted :: "ValidTickerCache \<Rightarrow> (string \<times> TickerAggregate) list \<Rightarrow> string set" where
  "redditWanted tc0 tickerData =
     {u. \<exists>(sy, d)\<in>set tickerData. mentions d \<ge> 2 \<and> \<not> isKnownSecTicker tc0 sy
            \<and> u = toUpperCase sy \<and> alpacaCache tc0 u = None}"

section \<open>Twitter integration (gatherers/crypto.ts): the read budget and the confirmation lookup\<close>

text \<open>
  The strategy state holds the daily read counter, the reset timestamp and one cached
  confirmation per symbol (\<open>ctx.state.get\<close> answers \<open>undefined\<close> for a key never set).
  \<open>fetchLog\<close> records the queries sent to the search endpoint, oldest first. \<open>now\<close> is
  \<open>Date.now()\<close>, taken once per lookup. Timestamps are milliseconds.
\<close>

definition MAX_DAILY_READS :: nat where
  "MAX_DAILY_READS = 200"

definition ONE_DAY_MS :: int where
  "ONE_DAY_MS = 86400000"

record Highlight =
  hl_author :: string
  hl_text :: string
  hl_likes :: nat

record TwitterConfirmation =
  tc_symbol :: string
  tweet_count :: nat
  tc_sentiment :: real
  confirms_existing :: bool
  highlights :: "Highlight list"
  tc_timestamp :: int

record TwitterState =
  twitterDailyReads :: "nat option"
  twitterDailyReadReset :: "int option"
  twitterConfirmation :: "string \<rightharpoonup> TwitterConfirmation"
  fetchLog :: "string list"

record Tweet =
  tw_text :: string
  tw_author :: string
  author_followers :: nat
  retweets :: nat
  likes :: nat

text \<open>The endpoint's answer: an OK response with its tweets, a non-OK status, or an exception.\<close>

datatype fetch_reply = FetchOk "Tweet list" | FetchNotOk nat | FetchThrows

text \<open>\<open>!!ctx.env.TWITTER_BEARER_TOKEN\<close>\<close>

definition isTwitterEnabled :: "string option \<Rightarrow> bool" where
  "isTwitterEnabled token = (case token of None \<Rightarrow> False | Some t \<Rightarrow> t \<noteq> [])"

definition canSpendTwitterRead :: "int \<Rightarrow> TwitterState \<Rightarrow> bool \<times> TwitterState" where
  "canSpendTwitterRead now st =
     (let resetTime = (case twitterDailyReadReset st of None \<Rightarrow> 0 | Some t \<Rightarrow> t);
          st1 = (if now - resetTime > ONE_DAY_MS
                 then st\<lparr>twitterDailyReads := Some 0, twitterDailyReadReset := Some now\<rparr>
                 else st);
          reads = (case twitterDailyReads st1 of None \<Rightarrow> 0 | Some r \<Rightarrow> r)
      in (reads < MAX_DAILY_READS, st1))"

definition spendTwitterRead :: "nat \<Rightarrow> TwitterState \<Rightarrow> TwitterState" where
  "spendTwitterRead cnt st =
     (let current = (case twitterDailyReads st of None \<Rightarrow> 0 | Some r \<Rightarrow> r)
      in st\<lparr>twitterDailyReads := Some (current + cnt)\<rparr>)"

definition twitterSearchRecent ::
  "string option \<Rightarrow> (string \<Rightarrow> fetch_reply) \<Rightarrow> int \<Rightarrow> string \<Rightarrow> TwitterState
     \<Rightarrow> Tweet list \<times> TwitterState" where
  "twitterSearchRecent token fetch now query st =
     (if \<not> isTwitterEnabled token then ([], st)
      else
        (case canSpendTwitterRead now st of
           (ok, st1) \<Rightarrow>
             if \<not> ok then ([], st1)
             else
               (let st2 = st1\<lparr>fetchLog := fetchLog st1 @ [query]\<rparr>
                in case fetch query of
                     FetchOk tweets \<Rightarrow> (tweets, spendTwitterRead 1 st2)
                   | FetchNotOk status \<Rightarrow> ([], st2)
                   | FetchThrows \<Rightarrow> ([], st2))))"

definition MIN_SENTIMENT_FOR_CONFIRMATION :: real where
  "MIN_SENTIMENT_FOR_CONFIRMATION = 3 / 10"

definition CACHE_TTL_MS :: int where
  "CACHE_TTL_MS = 300000"

definition bullWords :: "string list" where
  "bullWords = [''buy'', ''call'', ''long'', ''bullish'', ''upgrade'', ''beat'', ''squeeze'', ''moon'',
    ''breakout'']"

definition bearWords :: "string list" where
  "bearWords = [''sell'', ''put'', ''short'', ''bearish'', ''downgrade'', ''miss'', ''crash'', ''dump'',
    ''breakdown'']"

definition confirmationQuery :: "string \<Rightarrow> string" where
  "confirmationQuery sy = ''$'' @ sy @ '' (unusual OR flow OR sweep OR block OR whale) -is:retweet lang:en''"

definition tweetWeight :: "Tweet \<Rightarrow> real" where
  "tweetWeight tweet =
     (let authorWeight = min (15 / 10) (log 10 (real (author_followers tweet) + 1) / 5);
          engagementWeight = min (13 / 10) (1 + (real (likes tweet) + real (retweets tweet) * 2) / 1000)
      in authorWeight * engagementWeight)"

definition tweetPolarity :: "Tweet \<Rightarrow> int" where
  "tweetPolarity tweet =
     (let text = toLowerCase (tw_text tweet)
      in int (countIncluded text bullWords) - int (countIncluded text bearWords))"

text \<open>The accumulators of the loop over the tweets.\<close>

record TweetTotals =
  tt_bullish :: real
  tt_bearish :: real
  totalWeight :: real
  tt_highlights :: "Highlight list"

fun tweetLoop :: "Tweet list \<Rightarrow> TweetTotals \<Rightarrow> TweetTotals" where
  "tweetLoop [] acc = acc"
| "tweetLoop (tweet # rest) acc =
     (let weight = tweetWeight tweet;
          pol = tweetPolarity tweet;
          acc1 = (if pol > 0 then acc\<lparr>tt_bullish := tt_bullish acc + weight\<rparr>
                  else if pol < 0 then acc\<lparr>tt_bearish := tt_bearish acc + weight\<rparr>
                  else acc);
          acc2 = acc1\<lparr>totalWeight := totalWeight acc1 + weight\<rparr>;
          acc3 = (if likes tweet > 50 \<or> author_followers tweet > 10000
                  then acc2\<lparr>tt_highlights := tt_highlights acc2 @
                         [\<lparr>hl_author = tw_author tweet, hl_text = take 150 (tw_text tweet),
                           hl_likes = likes tweet\<rparr>]\<rparr>
                  else acc2)
      in tweetLoop rest acc3)"

definition twitterSentimentOf :: "Tweet list \<Rightarrow> real" where
  "twitterSentimentOf tweets =
     (let t = tweetLoop tweets \<lparr>tt_bullish = 0, tt_bearish = 0, totalWeight = 0, tt_highlights = []\<rparr>
      in if totalWeight t > 0 then (tt_bullish t - tt_bearish t) / totalWeight t else 0)"

definition confirmationOf :: "int \<Rightarrow> string \<Rightarrow> real \<Rightarrow> Tweet list \<Rightarrow> TwitterConfirmation" where
  "confirmationOf now sy existingSentiment tweets =
     (let t = tweetLoop tweets \<lparr>tt_bullish = 0, tt_bearish = 0, totalWeight = 0, tt_highlights = []\<rparr>;
          twitterSentiment = twitterSentimentOf tweets;
          twitterBullish = (twitterSentiment > 2 / 10);
          twitterBearish = (twitterSentiment < - (2 / 10));
          existingBullish = (existingSentiment > 0)
      in \<lparr>tc_symbol = sy, tweet_count = length tweets, tc_sentiment = twitterSentiment,
          confirms_existing = ((twitterBullish \<and> existingBullish) \<or> (twitterBearish \<and> \<not> existingBullish)),
          highlights = take 3 (tt_highlights t), tc_timestamp = now\<rparr>)"

definition gatherTwitterConfirmation ::
  "string option \<Rightarrow> (string \<Rightarrow> fetch_reply) \<Rightarrow> int \<Rightarrow> string \<Rightarrow> real \<Rightarrow> TwitterState
     \<Rightarrow> TwitterConfirmation option \<times> TwitterState" where
  "gatherTwitterConfirmation token fetch now sy existingSentiment st =
     (if \<not> isTwitterEnabled token then (None, st)
      else
        (case canSpendTwitterRead now st of
           (ok, st1) \<Rightarrow>
             if \<not> ok then (None, st1)
             else if \<bar>existingSentiment\<bar> < MIN_SENTIMENT_FOR_CONFIRMATION then (None, st1)
             else
               (case (case twitterConfirmation st1 sy of
                        None \<Rightarrow> None
                      | Some cached \<Rightarrow>
                          if now - tc_timestamp cached < CACHE_TTL_MS then Some cached else None) of
                  Some cached \<Rightarrow> (Some cached, st1)
                | None \<Rightarrow>
                    (case twitterSearchRecent token fetch now (confirmationQuery sy) st1 of
                       (tweets, st2) \<Rightarrow>
                         if tweets = [] then (None, st2)
                         else
                           (let result = confirmationOf now sy existingSentiment tweets
                            in (Some result,
                                st2\<lparr>twitterConfirmation := (twitterConfirmation st2)(sy \<mapsto> result)\<rparr>))))))"

text \<open>
  The specification's wording of \<open>confirms_existing\<close>, for comparison: the sign of the
  confirmation sentiment agrees with the sign of the existing sentiment.
\<close>

definition spec_confirmsExisting :: "real \<Rightarrow> real \<Rightarrow> bool" where
  "spec_confirmsExisting twitterSentiment existingSentiment =
     (sgn twitterSentiment = sgn existingSentiment)"

section \<open>The configuration and the broker's records\<close>

text \<open>
  The fields of \<open>AgentConfig\<close>, \<open>Position\<close>, \<open>PositionEntry\<close>, \<open>ResearchResult\<close> and
  \<open>Account\<close> that the rules read. Amounts, prices and percentages are real numbers
  (rounding is not modelled); \<open>max_positions\<close> is a count. Record fields that several
  records share carry a prefix (\<open>pos_symbol\<close>, \<open>res_symbol\<close>, \<open>buy_symbol\<close>,
  \<open>sell_symbol\<close>).
\<close>

record AgentConfig =
  max_positions :: int
  min_analyst_confidence :: real
  position_size_pct_of_cash :: real
  max_position_value :: real
  options_enabled :: bool
  options_min_confidence :: real
  options_stop_loss_pct :: real
  options_take_profit_pct :: real
  take_profit_pct :: real
  stop_loss_pct :: real
  stale_position_enabled :: bool
  stale_min_hold_hours :: real
  stale_max_hold_days :: real
  stale_mid_hold_days :: real
  stale_mid_min_gain_pct :: real
  stale_min_gain_pct :: real
  stale_social_volume_decay :: real

record Position =
  pos_symbol :: string
  asset_class :: string
  unrealized_pl :: real
  market_value :: real
  current_price :: real
  avg_entry_price :: real

record PositionEntry =
  entry_time :: int
  entry_price :: real
  entry_social_volume :: real

datatype Verdict = BUY | SKIP | WAIT

datatype EntryQuality = excellent | good | fair | poor

record ResearchResult =
  res_symbol :: string
  verdict :: Verdict
  confidence :: real
  entry_quality :: EntryQuality
  reasoning :: string

record Account =
  cash :: real

section \<open>Staleness detection: \<open>analyzeStaleness\<close> (rules/staleness.ts)\<close>

text \<open>
  A division whose divisor is a variable is checked: \<open>None\<close> stands for the infinity or
  NaN that JavaScript computes from a zero divisor, which real numbers do not have.
  The reason strings are kept as a datatype carrying the numbers they print.
\<close>

definition safeDiv :: "real \<Rightarrow> real \<Rightarrow> real option" where
  "safeDiv a b = (if b = 0 then None else Some (a / b))"

datatype StalenessReason =
  NoEntryData | TooEarly real | StalenessScore real real | OkScore real

record StalenessResult =
  isStale :: bool
  stale_reason :: StalenessReason
  staleness_score :: real

definition holdHours :: "int \<Rightarrow> PositionEntry \<Rightarrow> real" where
  "holdHours now entry = real_of_int (now - entry_time entry) / (1000 * 60 * 60)"

definition holdDays :: "int \<Rightarrow> PositionEntry \<Rightarrow> real" where
  "holdDays now entry = holdHours now entry / 24"

definition analyzeStaleness ::
  "AgentConfig \<Rightarrow> int \<Rightarrow> real \<Rightarrow> real \<Rightarrow> PositionEntry option \<Rightarrow> StalenessResult option" where
  "analyzeStaleness cfg now currentPrice currentSocialVolume entryOpt =
     (case entryOpt of
        None \<Rightarrow> Some \<lparr>isStale = False, stale_reason = NoEntryData, staleness_score = 0\<rparr>
      | Some entry \<Rightarrow>
          (let hH = holdHours now entry; hD = holdDays now entry
           in do {
             pnlPct \<leftarrow> (if entry_price entry > 0
                        then map_option (\<lambda>q. q * 100)
                               (safeDiv (currentPrice - entry_price entry) (entry_price entry))
                        else Some 0);
             if hH < stale_min_hold_hours cfg
             then Some \<lparr>isStale = False, stale_reason = TooEarly hH, staleness_score = 0\<rparr>
             else do {
               timeScore \<leftarrow> (if hD \<ge> stale_max_hold_days cfg then Some 40
                             else if hD \<ge> stale_mid_hold_days cfg
                             then safeDiv (20 * (hD - stale_mid_hold_days cfg))
                                    (stale_max_hold_days cfg - stale_mid_hold_days cfg)
                             else Some 0);
               volumeRatio \<leftarrow> (if entry_social_volume entry > 0
                               then safeDiv currentSocialVolume (entry_social_volume entry)
                               else Some 1);
               (let priceScore = (if pnlPct < 0 then min 30 (\<bar>pnlPct\<bar> * 3)
                                  else if pnlPct < stale_mid_min_gain_pct cfg
                                          \<and> hD \<ge> stale_mid_hold_days cfg then 15
                                  else 0);
                    volumeScore = (if volumeRatio \<le> stale_social_volume_decay cfg then 30
                                   else if volumeRatio \<le> 5 / 10 then 15
                                   else 0);
                    stalenessScore = min 100 (timeScore + priceScore + volumeScore);
                    stale = (stalenessScore \<ge> 70
                             \<or> (hD \<ge> stale_max_hold_days cfg \<and> pnlPct < stale_min_gain_pct cfg))
                in Some \<lparr>isStale = stale,
                         stale_reason = (if stale then StalenessScore stalenessScore hD
                                         else OkScore stalenessScore),
                         staleness_score = stalenessScore\<rparr>)
             }
           }))"

text \<open>
  The P&L percentage of a position against its entry record, as the staleness engine
  reads it: relative to the entry price, and 0 when no positive entry price is known.
\<close>

definition pnlPctSinceEntry :: "real \<Rightarrow> PositionEntry \<Rightarrow> real" where
  "pnlPctSinceEntry currentPrice entry =
     (if entry_price entry > 0
      then ((currentPrice - entry_price entry) / entry_price entry) * 100
      else 0)"

text \<open>
  The three components of the score as plain real-number expressions (time, cap 40;
  price action, cap 30; social-volume decay, cap 30), to state what
  \<open>analyzeStaleness\<close> computes once its divisions are known to be defined.
\<close>

definition timeComponent :: "AgentConfig \<Rightarrow> real \<Rightarrow> real" where
  "timeComponent cfg hD =
     (if hD \<ge> stale_max_hold_days cfg then 40
      else if hD \<ge> stale_mid_hold_days cfg
      then 20 * (hD - stale_mid_hold_days cfg) / (stale_max_hold_days cfg - stale_mid_hold_days cfg)
      else 0)"

definition priceComponent :: "AgentConfig \<Rightarrow> real \<Rightarrow> real \<Rightarrow> real" where
  "priceComponent cfg hD pnlPct =
     (if pnlPct < 0 then min 30 (\<bar>pnlPct\<bar> * 3)
      else if pnlPct < stale_mid_min_gain_pct cfg \<and> hD \<ge> stale_mid_hold_days cfg then 15
      else 0)"

definition volumeComponent :: "AgentConfig \<Rightarrow> real \<Rightarrow> PositionEntry \<Rightarrow> real" where
  "volumeComponent cfg currentSocialVolume entry =
     (let volumeRatio = (if entry_social_volume entry > 0
                         then currentSocialVolume / entry_social_volume entry else 1)
      in if volumeRatio \<le> stale_social_volume_decay cfg then 30
         else if volumeRatio \<le> 5 / 10 then 15
         else 0)"

text \<open>
  The specification's wording of the flag, for comparison: the score reaches 70, or the
  hold time \<^emph>\<open>exceeds\<close> the max-hold threshold and the P&L is below the minimum-gain floor.
\<close>

definition spec_isStale :: "AgentConfig \<Rightarrow> real \<Rightarrow> real \<Rightarrow> real \<Rightarrow> bool" where
  "spec_isStale cfg score hD pnl =
     (score \<ge> 70 \<or> (hD > stale_max_hold_days cfg \<and> pnl < stale_min_gain_pct cfg))"

section \<open>Entry rules: \<open>selectEntries\<close> (rules/entries.ts)\<close>

record BuyCandidate =
  buy_symbol :: string
  buy_confidence :: real
  buy_reason :: string
  notional :: real
  useOptions :: bool

definition entryNotional :: "AgentConfig \<Rightarrow> Account \<Rightarrow> ResearchResult \<Rightarrow> real" where
  "entryNotional cfg account r =
     (let sizePct = min 20 (position_size_pct_of_cash cfg)
      in min (cash account * (sizePct / 100) * confidence r) (max_position_value cfg))"

definition buyCandidateOf :: "AgentConfig \<Rightarrow> Account \<Rightarrow> ResearchResult \<Rightarrow> BuyCandidate" where
  "buyCandidateOf cfg account r =
     \<lparr>buy_symbol = res_symbol r, buy_confidence = confidence r, buy_reason = reasoning r,
      notional = entryNotional cfg account r,
      useOptions = (options_enabled cfg \<and> confidence r \<ge> options_min_confidence cfg
                    \<and> entry_quality r = excellent)\<rparr>"

text \<open>The \<open>for\<close> loop over \<open>buyResearch.slice(0, 3)\<close>; \<open>npos\<close> is \<open>positions.length\<close>.\<close>

fun entryLoop ::
  "AgentConfig \<Rightarrow> Account \<Rightarrow> nat \<Rightarrow> ResearchResult list \<Rightarrow> BuyCandidate list \<Rightarrow> BuyCandidate list" where
  "entryLoop cfg account npos [] candidates = candidates"
| "entryLoop cfg account npos (r # rs) candidates =
     (if int npos + int (length candidates) \<ge> max_positions cfg then candidates
      else if entryNotional cfg account r < 100 then entryLoop cfg account npos rs candidates
      else entryLoop cfg account npos rs (candidates @ [buyCandidateOf cfg account r]))"

text \<open>
  \<open>Array.prototype.sort\<close> is stable, and so is \<^const>\<open>sort_key\<close>; the comparator
  \<open>b.confidence - a.confidence\<close> orders by descending confidence.
\<close>

definition selectEntries ::
  "AgentConfig \<Rightarrow> ResearchResult list \<Rightarrow> Position list \<Rightarrow> Account \<Rightarrow> BuyCandidate list" where
  "selectEntries cfg research positions account =
     (let heldSymbols = set (map pos_symbol positions)
      in if int (length positions) \<ge> max_positions cfg then []
         else
           (let buyResearch =
                  sort_key (\<lambda>r. - confidence r)
                    (filter (\<lambda>r. res_symbol r \<notin> heldSymbols)
                       (filter (\<lambda>r. verdict r = BUY \<and> confidence r \<ge> min_analyst_confidence cfg)
                          research))
            in entryLoop cfg account (length positions) (take 3 buyResearch) []))"

text \<open>The filter of \<open>selectEntries\<close> as one predicate.\<close>

definition eligible :: "AgentConfig \<Rightarrow> Position list \<Rightarrow> ResearchResult \<Rightarrow> bool" where
  "eligible cfg positions r =
     (verdict r = BUY \<and> confidence r \<ge> min_analyst_confidence cfg
      \<and> res_symbol r \<notin> set (map pos_symbol positions))"

section \<open>Exit rules: \<open>selectExits\<close> and \<open>checkOptionsExit\<close> (rules/entries.ts)\<close>

text \<open>
  The cost-basis P&L percentage divides by \<open>market_value - unrealized_pl\<close>, which no
  guard keeps from being zero; JavaScript then computes an infinity or NaN and goes on
  comparing. The quotient is therefore a \<open>jsnum\<close>: a real number, an infinity or NaN.
\<close>

datatype jsnum = Fin real | PosInf | NegInf | NaN

definition jsDiv :: "real \<Rightarrow> real \<Rightarrow> jsnum" where
  "jsDiv a b =
     (if b \<noteq> 0 then Fin (a / b)
      else if a > 0 then PosInf else if a < 0 then NegInf else NaN)"

fun jsTimes :: "jsnum \<Rightarrow> real \<Rightarrow> jsnum" where
  "jsTimes (Fin x) c = Fin (x * c)"
| "jsTimes PosInf c = (if c > 0 then PosInf else if c < 0 then NegInf else NaN)"
| "jsTimes NegInf c = (if c > 0 then NegInf else if c < 0 then PosInf else NaN)"
| "jsTimes NaN c = NaN"

fun jsGe :: "jsnum \<Rightarrow> real \<Rightarrow> bool" where
  "jsGe (Fin x) t = (x \<ge> t)"
| "jsGe PosInf t = True"
| "jsGe NegInf t = False"
| "jsGe NaN t = False"

fun jsLe :: "jsnum \<Rightarrow> real \<Rightarrow> bool" where
  "jsLe (Fin x) t = (x \<le> t)"
| "jsLe PosInf t = False"
| "jsLe NegInf t = True"
| "jsLe NaN t = False"

text \<open>
  The reason strings, as a datatype carrying the P&L percentage (or the staleness
  reason) that the string prints.
\<close>

datatype ExitReason =
  TakeProfit jsnum
| StopLoss jsnum
| Stale StalenessReason
| OptionsStopLoss real
| OptionsTakeProfit real

record SellCandidate =
  sell_symbol :: string
  sell_reason :: ExitReason

text \<open>
  What \<open>selectExits\<close> reads of the strategy context: the configuration, the entry
  records and the social snapshot cache (per symbol, the current volume).
\<close>

record ExitContext =
  config :: AgentConfig
  positionEntries :: "string \<rightharpoonup> PositionEntry"
  socialSnapshotCache :: "string \<rightharpoonup> real"

definition optionsPnlPct :: "Position \<Rightarrow> real" where
  "optionsPnlPct pos =
     (let entryPrice = (if avg_entry_price pos \<noteq> 0 then avg_entry_price pos else current_price pos)
      in if entryPrice > 0 then ((current_price pos - entryPrice) / entryPrice) * 100 else 0)"

definition checkOptionsExit :: "Position \<Rightarrow> AgentConfig \<Rightarrow> SellCandidate option" where
  "checkOptionsExit pos cfg =
     (if \<not> options_enabled cfg then None
      else
        (let plPct = optionsPnlPct pos
         in if plPct \<le> - options_stop_loss_pct cfg
            then Some \<lparr>sell_symbol = pos_symbol pos, sell_reason = OptionsStopLoss plPct\<rparr>
            else if plPct \<ge> options_take_profit_pct cfg
            then Some \<lparr>sell_symbol = pos_symbol pos, sell_reason = OptionsTakeProfit plPct\<rparr>
            else None))"

definition costBasisPnlPct :: "Position \<Rightarrow> jsnum" where
  "costBasisPnlPct pos =
     jsTimes (jsDiv (unrealized_pl pos) (market_value pos - unrealized_pl pos)) 100"

text \<open>
  The loop of \<open>selectExits\<close>, threading the exits pushed so far and the
  \<open>stalenessAnalysis\<close> entry of the strategy state. \<open>analyzeStaleness\<close> never answers
  \<open>None\<close>; that branch leaves both unchanged.
\<close>

fun exitLoop ::
  "ExitContext \<Rightarrow> int \<Rightarrow> Position list
     \<Rightarrow> SellCandidate list \<times> (string \<rightharpoonup> StalenessResult)
     \<Rightarrow> SellCandidate list \<times> (string \<rightharpoonup> StalenessResult)" where
  "exitLoop ctx now [] acc = acc"
| "exitLoop ctx now (pos # rest) (exits, stalenessState) =
     (if asset_class pos = ''us_option'' then
        (case checkOptionsExit pos (config ctx) of
           Some optionExit \<Rightarrow> exitLoop ctx now rest (exits @ [optionExit], stalenessState)
         | None \<Rightarrow> exitLoop ctx now rest (exits, stalenessState))
      else
        (let plPct = costBasisPnlPct pos
         in if jsGe plPct (take_profit_pct (config ctx)) then
              exitLoop ctx now rest
                (exits @ [\<lparr>sell_symbol = pos_symbol pos, sell_reason = TakeProfit plPct\<rparr>],
                 stalenessState)
            else if jsLe plPct (- stop_loss_pct (config ctx)) then
              exitLoop ctx now rest
                (exits @ [\<lparr>sell_symbol = pos_symbol pos, sell_reason = StopLoss plPct\<rparr>],
                 stalenessState)
            else if stale_position_enabled (config ctx) then
              (let currentSocialVolume =
                     (case socialSnapshotCache ctx (pos_symbol pos) of None \<Rightarrow> 0 | Some v \<Rightarrow> v);
                   entry = positionEntries ctx (pos_symbol pos)
               in case analyzeStaleness (config ctx) now (current_price pos) currentSocialVolume entry of
                    None \<Rightarrow> exitLoop ctx now rest (exits, stalenessState)
                  | Some stalenessResult \<Rightarrow>
                      (let stalenessState' = stalenessState(pos_symbol pos \<mapsto> stalenessResult)
                       in if isStale stalenessResult then
                            exitLoop ctx now rest
                              (exits @ [\<lparr>sell_symbol = pos_symbol pos,
                                          sell_reason = Stale (stale_reason stalenessResult)\<rparr>],
                               stalenessState')
                          else exitLoop ctx now rest (exits, stalenessState')))
            else exitLoop ctx now rest (exits, stalenessState)))"

definition selectExits ::
  "ExitContext \<Rightarrow> int \<Rightarrow> Position list \<Rightarrow> (string \<rightharpoonup> StalenessResult)
     \<Rightarrow> SellCandidate list \<times> (string \<rightharpoonup> StalenessResult)" where
  "selectExits ctx now positions stalenessState = exitLoop ctx now positions ([], stalenessState)"

text \<open>
  What one pass of the loop decides for one position: an options instrument is judged
  by \<open>checkOptionsExit\<close> alone; any other position by take profit, then stop loss, then
  staleness (when enabled).
\<close>

definition exitDecision :: "ExitContext \<Rightarrow> int \<Rightarrow> Position \<Rightarrow> SellCandidate option" where
  "exitDecision ctx now pos =
     (if asset_class pos = ''us_option'' then checkOptionsExit pos (config ctx)
      else if jsGe (costBasisPnlPct pos) (take_profit_pct (config ctx))
      then Some \<lparr>sell_symbol = pos_symbol pos, sell_reason = TakeProfit (costBasisPnlPct pos)\<rparr>
      else if jsLe (costBasisPnlPct pos) (- stop_loss_pct (config ctx))
      then Some \<lparr>sell_symbol = pos_symbol pos, sell_reason = StopLoss (costBasisPnlPct pos)\<rparr>
      else if stale_position_enabled (config ctx)
      then (case analyzeStaleness (config ctx) now (current_price pos)
                   (case socialSnapshotCache ctx (pos_symbol pos) of None \<Rightarrow> 0 | Some v \<Rightarrow> v)
                   (positionEntries ctx (pos_symbol pos)) of
              None \<Rightarrow> None
            | Some res \<Rightarrow>
                if isStale res
                then Some \<lparr>sell_symbol = pos_symbol pos, sell_reason = Stale (stale_reason res)\<rparr>
                else None)
      else None)"

text \<open>
  The specification's wording of the precedence, for comparison: the options rule
  first if the position is an options instrument, then take profit, then stop loss,
  then staleness, the first match giving the reason.
\<close>

definition spec_exitDecision :: "ExitContext \<Rightarrow> int \<Rightarrow> Position \<Rightarrow> SellCandidate option" where
  "spec_exitDecision ctx now pos =
     (case (if asset_class pos = ''us_option'' then checkOptionsExit pos (config ctx) else None) of
        Some optionExit \<Rightarrow> Some optionExit
      | None \<Rightarrow>
          if jsGe (costBasisPnlPct pos) (take_profit_pct (config ctx))
          then Some \<lparr>sell_symbol = pos_symbol pos, sell_reason = TakeProfit (costBasisPnlPct pos)\<rparr>
          else if jsLe (costBasisPnlPct pos) (- stop_loss_pct (config ctx))
          then Some \<lparr>sell_symbol = pos_symbol pos, sell_reason = StopLoss (costBasisPnlPct pos)\<rparr>
          else if stale_position_enabled (config ctx)
          then (case analyzeStaleness (config ctx) now (current_price pos)
                       (case socialSnapshotCache ctx (pos_symbol pos) of None \<Rightarrow> 0 | Some v \<Rightarrow> v)
                       (positionEntries ctx (pos_symbol pos)) of
                  None \<Rightarrow> None
                | Some res \<Rightarrow>
                    if isStale res
                    then Some \<lparr>sell_symbol = pos_symbol pos, sell_reason = Stale (stale_reason res)\<rparr>
                    else None)
          else None)"

section \<open>Example data\<close>

text \<open>A configuration and an entry record for the concrete evaluations below.\<close>

definition exampleConfig :: AgentConfig where
  "exampleConfig =
     \<lparr>max_positions = 2, min_analyst_confidence = 5 / 10, position_size_pct_of_cash = 25,
      max_position_value = 5000, options_enabled = True, options_min_confidence = 8 / 10,
      options_stop_loss_pct = 50, options_take_profit_pct = 50,
      take_profit_pct = 10, stop_loss_pct = 5, stale_position_enabled = True,
      stale_min_hold_hours = 24, stale_max_hold_days = 3, stale_mid_hold_days = 1,
      stale_mid_min_gain_pct = 1 / 2, stale_min_gain_pct = 5,
      stale_social_volume_decay = 3 / 10\<rparr>"

definition exampleEntry :: PositionEntry where
  "exampleEntry = \<lparr>entry_time = 0, entry_price = 100, entry_social_volume = 10\<rparr>"

definition exampleResearch :: "ResearchResult list" where
  "exampleResearch =
     [\<lparr>res_symbol = ''A'', verdict = BUY, confidence = 6 / 10, entry_quality = good, reasoning = ''r''\<rparr>,
      \<lparr>res_symbol = ''B'', verdict = BUY, confidence = 9 / 10, entry_quality = good, reasoning = ''r''\<rparr>,
      \<lparr>res_symbol = ''C'', verdict = BUY, confidence = 5 / 10, entry_quality = good, reasoning = ''r''\<rparr>,
      \<lparr>res_symbol = ''D'', verdict = BUY, confidence = 8 / 10, entry_quality = good, reasoning = ''r''\<rparr>,
      \<lparr>res_symbol = ''E'', verdict = BUY, confidence = 7 / 10, entry_quality = good, reasoning = ''r''\<rparr>]"

text \<open>
  A context whose only entry record is for \<open>Y\<close>, with no social snapshot; a stock
  position \<open>Y\<close> bought at 100 and now at 120; an option position whose average entry
  price is missing (0); and an option position bought at 2 and now at 2.5.
\<close>

definition exampleContext :: ExitContext where
  "exampleContext =
     \<lparr>config = exampleConfig, positionEntries = [''Y'' \<mapsto> exampleEntry],
      socialSnapshotCache = Map.empty\<rparr>"

definition stockPosition :: Position where
  "stockPosition =
     \<lparr>pos_symbol = ''Y'', asset_class = ''us_equity'', unrealized_pl = 20, market_value = 120,
      current_price = 120, avg_entry_price = 100\<rparr>"

definition optionNoEntryPrice :: Position where
  "optionNoEntryPrice =
     \<lparr>pos_symbol = ''X1'', asset_class = ''us_option'', unrealized_pl = 100, market_value = 300,
      current_price = 3, avg_entry_price = 0\<rparr>"

definition optionUp25 :: Position where
  "optionUp25 =
     \<lparr>pos_symbol = ''X2'', asset_class = ''us_option'', unrealized_pl = 50, market_value = 250,
      current_price = 5 / 2, avg_entry_price = 2\<rparr>"

text \<open>
  A cache that has \<open>AAPL\<close> and \<open>MSFT\<close> in the authoritative set and a negative cached
  validation for \<open>TSLA\<close>; a resolver for three company names; four filings, the last
  of a company that does not resolve; and three Reddit aggregates, the last with a
  single mention.
\<close>

definition exampleCache :: ValidTickerCache where
  "exampleCache =
     \<lparr>secTickers = Some {''AAPL'', ''MSFT''}, lastSecRefresh = 0,
      alpacaCache = [''TSLA'' \<mapsto> False]\<rparr>"

definition exampleResolve :: "string \<Rightarrow> string option" where
  "exampleResolve c =
     (if c = ''Apple Inc.'' then Some ''AAPL''
      else if c = ''Microsoft Corp'' then Some ''msft''
      else if c = ''Tesla Inc'' then Some ''TSLA''
      else None)"

definition exampleFilings :: "SecEntry list" where
  "exampleFilings =
     [\<lparr>company = ''Apple Inc.'', form = ''8-K'', updated = 0\<rparr>,
      \<lparr>company = ''Tesla Inc'', form = ''8-K'', updated = 0\<rparr>,
      \<lparr>company = ''Microsoft Corp'', form = ''4'', updated = 0\<rparr>,
      \<lparr>company = ''Unknown Holdings'', form = ''8-K'', updated = 0\<rparr>]"

definition exampleTickerData :: "(string \<times> TickerAggregate) list" where
  "exampleTickerData =
     [(''AAPL'', \<lparr>mentions = 3, weightedSentiment = 1, rawSentiment = 2, totalQuality = 2, freshestPost = 0\<rparr>),
      (''gme'', \<lparr>mentions = 2, weightedSentiment = 1, rawSentiment = 1, totalQuality = 1, freshestPost = 0\<rparr>),
      (''XYZ'', \<lparr>mentions = 1, weightedSentiment = 1, rawSentiment = 1, totalQuality = 1, freshestPost = 0\<rparr>)]"

text \<open>
  Two more option positions, one contract each: bought at 2 and now at 3 (up 50%), and
  bought at 2 and now at 0.8 (down 60%); and the example context with options disabled.
\<close>

definition optionUp50 :: Position where
  "optionUp50 =
     \<lparr>pos_symbol = ''X3'', asset_class = ''us_option'', unrealized_pl = 100, market_value = 300,
      current_price = 3, avg_entry_price = 2\<rparr>"

definition optionDown60 :: Position where
  "optionDown60 =
     \<lparr>pos_symbol = ''X4'', asset_class = ''us_option'', unrealized_pl = - 120, market_value = 80,
      current_price = 8 / 10, avg_entry_price = 2\<rparr>"

definition optionsOffContext :: ExitContext where
  "optionsOffContext = exampleContext\<lparr>config := exampleConfig\<lparr>options_enabled := False\<rparr>\<rparr>"

section \<open>Theorems\<close>

subsection \<open>Unfolding the text primitives\<close>

lemmas text_defs = toUpperCase_def toLowerCase_def toUpperChar_def toLowerChar_def
  lowerLetters_def upperLetters_def

lemma toUpperChar_letter:
  "isAsciiLetter c \<Longrightarrow> toUpperChar c \<in> set upperLetters"
  unfolding isAsciiLetter_def toUpperChar_def lowerLetters_def upperLetters_def
  by (elim disjE) (simp_all, (elim disjE; simp)+)

lemma toUpperChar_upper:
  "c \<in> set upperLetters \<Longrightarrow> toUpperChar c = c"
  unfolding toUpperChar_def lowerLetters_def upperLetters_def
  by simp (elim disjE; simp)

lemma toUpperCase_upper:
  "\<forall>c\<in>set t. c \<in> set upperLetters \<Longrightarrow> toUpperCase t = t"
  unfolding toUpperCase_def by (induction t) (simp_all add: toUpperChar_upper)

lemma toUpperChar_other:
  "c \<notin> set lowerLetters \<Longrightarrow> toUpperChar c = c"
  unfolding toUpperChar_def lowerLetters_def upperLetters_def by simp

lemma toUpperChar_idem: "toUpperChar (toUpperChar c) = toUpperChar c"
proof (cases "c \<in> set lowerLetters")
  case True
  then have "toUpperChar c \<in> set upperLetters"
    by (simp add: toUpperChar_letter isAsciiLetter_def)
  then show ?thesis by (rule toUpperChar_upper)
next
  case False
  then show ?thesis by (simp add: toUpperChar_other)
qed

lemma toUpperCase_idem: "toUpperCase (toUpperCase s) = toUpperCase s"
  by (simp add: toUpperCase_def toUpperChar_idem)

subsection \<open>The validation cache in the gatherers\<close>

lemma isKnownSecTicker_upper:
  "isKnownSecTicker tc (toUpperCase sy) = isKnownSecTicker tc sy"
  by (simp add: isKnownSecTicker_def toUpperCase_idem split: option.splits)

lemma isKnownSecTicker_extends:
  "cacheExtends tc0 tc \<Longrightarrow> isKnownSecTicker tc sy = isKnownSecTicker tc0 sy"
  by (simp add: isKnownSecTicker_def cacheExtends_def)

lemma cacheExtends_refl: "cacheExtends tc tc"
  by (simp add: cacheExtends_def)

lemma cacheExtends_uncached:
  "cacheExtends tc0 tc \<Longrightarrow> alpacaCache tc k = None \<Longrightarrow> alpacaCache tc0 k = None"
  by (cases "alpacaCache tc0 k") (auto simp: cacheExtends_def)

text \<open>One validation: the cache grows, and a call is logged only for an uncached symbol.\<close>

lemma validateWithAlpaca_step:
  assumes v: "validateWithAlpaca getAsset sy (tc, calls) = (isValid, (tc', calls'))"
    and ext: "cacheExtends tc0 tc"
  shows "cacheExtends tc0 tc'"
    and "calls' = calls \<or> (calls' = calls @ [toUpperCase sy] \<and> alpacaCache tc0 (toUpperCase sy) = None)"
proof -
  show "cacheExtends tc0 tc'"
  proof (cases "alpacaCache tc (toUpperCase sy)")
    case (Some c)
    with v ext show ?thesis by (simp add: validateWithAlpaca_def Let_def)
  next
    case None
    then have "alpacaCache tc0 (toUpperCase sy) = None"
      using ext by (rule cacheExtends_uncached [rotated])
    with v ext None show ?thesis
      by (cases "getAsset (toUpperCase sy)") (auto simp: validateWithAlpaca_def cacheExtends_def Let_def)
  qed
  show "calls' = calls \<or> (calls' = calls @ [toUpperCase sy] \<and> alpacaCache tc0 (toUpperCase sy) = None)"
  proof (cases "alpacaCache tc (toUpperCase sy)")
    case (Some c)
    with v show ?thesis by (simp add: validateWithAlpaca_def Let_def)
  next
    case None
    then have "alpacaCache tc0 (toUpperCase sy) = None"
      using ext by (rule cacheExtends_uncached [rotated])
    with v None show ?thesis
      by (cases "getAsset (toUpperCase sy)") (auto simp: validateWithAlpaca_def Let_def)
  qed
qed

lemma redditPromote_invariant:
  assumes "cacheExtends tc0 (fst st)" "callsUncached tc0 (snd st)" "callsOutsideSec tc0 (snd st)"
  shows "cacheExtends tc0 (fst (snd (redditPromote getAsset halfLife now tickerData (signals, st))))
    \<and> callsUncached tc0 (snd (snd (redditPromote getAsset halfLife now tickerData (signals, st))))
    \<and> callsOutsideSec tc0 (snd (snd (redditPromote getAsset halfLife now tickerData (signals, st))))"
  using assms
proof (induction tickerData arbitrary: signals st)
  case Nil
  then show ?case by simp
next
  case (Cons a rest)
  obtain sy d where a: "a = (sy, d)" by (cases a)
  obtain tc calls where st: "st = (tc, calls)" by (cases st)
  note IH = Cons.IH
  note pre = Cons.prems
  show ?case
  proof (cases "mentions d \<ge> 2 \<and> \<not> isKnownSecTicker tc sy \<and> getCachedValidation tc sy = None")
    case False
    then show ?thesis
      using IH [OF pre] a st by (auto split: option.splits bool.splits)
  next
    case True
    obtain isValid tc' calls' where v: "validateWithAlpaca getAsset sy (tc, calls) = (isValid, (tc', calls'))"
      by (metis prod.exhaust)
    have ext: "cacheExtends tc0 tc" using pre(1) st by simp
    have ext': "cacheExtends tc0 tc'"
      using validateWithAlpaca_step(1) [OF v ext] .
    have c: "calls' = calls \<or> (calls' = calls @ [toUpperCase sy] \<and> alpacaCache tc0 (toUpperCase sy) = None)"
      using validateWithAlpaca_step(2) [OF v ext] .
    have nosec: "\<not> isKnownSecTicker tc0 (toUpperCase sy)"
      using True ext by (simp add: isKnownSecTicker_upper isKnownSecTicker_extends)
    have u': "callsUncached tc0 calls'"
      using c pre(2) st by (auto simp: callsUncached_def)
    have s': "callsOutsideSec tc0 calls'"
      using c pre(3) st nosec by (auto simp: callsOutsideSec_def)
    have p: "cacheExtends tc0 (fst (tc', calls'))" "callsUncached tc0 (snd (tc', calls'))"
      "callsOutsideSec tc0 (snd (tc', calls'))"
      using ext' u' s' by simp_all
    show ?thesis
      using True a st v IH [OF p] by (simp add: getCachedValidation_def)
  qed
qed

lemma secPromote_invariant:
  assumes "cacheExtends tc0 (fst st)" "callsUncached tc0 (snd st)"
  shows "cacheExtends tc0 (fst (snd (secPromote getAsset resolveTicker w now entries (signals, st))))
    \<and> callsUncached tc0 (snd (snd (secPromote getAsset resolveTicker w now entries (signals, st))))"
  using assms
proof (induction entries arbitrary: signals st)
  case Nil
  then show ?case by simp
next
  case (Cons e rest)
  obtain tc calls where st: "st = (tc, calls)" by (cases st)
  note IH = Cons.IH
  note pre = Cons.prems
  show ?case
  proof (cases "\<exists>ticker. resolveTicker (company e) = Some ticker \<and> ticker \<noteq> []
                  \<and> getCachedValidation tc ticker = None")
    case False
    then show ?thesis
      using IH [OF pre] st by (auto split: option.splits bool.splits)
  next
    case True
    then obtain ticker where t: "resolveTicker (company e) = Some ticker" "ticker \<noteq> []"
      "getCachedValidation tc ticker = None" by blast
    obtain isValid tc' calls' where v: "validateWithAlpaca getAsset ticker (tc, calls) = (isValid, (tc', calls'))"
      by (metis prod.exhaust)
    have ext: "cacheExtends tc0 tc" using pre(1) st by simp
    have ext': "cacheExtends tc0 tc'"
      using validateWithAlpaca_step(1) [OF v ext] .
    have c: "calls' = calls \<or> (calls' = calls @ [toUpperCase ticker] \<and> alpacaCache tc0 (toUpperCase ticker) = None)"
      using validateWithAlpaca_step(2) [OF v ext] .
    have u': "callsUncached tc0 calls'"
      using c pre(2) st by (auto simp: callsUncached_def)
    have p: "cacheExtends tc0 (fst (tc', calls'))" "callsUncached tc0 (snd (tc', calls'))"
      using ext' u' by simp_all
    show ?thesis
      using t st v IH [OF p] by simp
  qed
qed

lemma validateWithAlpaca_uncached:
  assumes "alpacaCache tc (toUpperCase sy) = None"
    and "validateWithAlpaca getAsset sy (tc, calls) = (isValid, (tc', calls'))"
  shows "calls' = calls @ [toUpperCase sy]"
    and "dom (alpacaCache tc') = insert (toUpperCase sy) (dom (alpacaCache tc))"
  using assms
  by (cases "getAsset (toUpperCase sy)"; auto simp: validateWithAlpaca_def Let_def)+

text \<open>
  The calls of a loop are tracked by the cache: the cache holds the validations it
  started with and one for each call made, and no symbol is asked about twice.
\<close>

lemma secPromote_calls:
  assumes "cacheExtends tc0 tc" "callsTracked tc0 tc calls"
  shows "set (snd (snd (secPromote getAsset resolveTicker w now entries (signals, (tc, calls)))))
       = set calls \<union> secWanted resolveTicker tc0 entries
     \<and> distinct (snd (snd (secPromote getAsset resolveTicker w now entries (signals, (tc, calls)))))"
  using assms
proof (induction entries arbitrary: signals tc calls)
  case Nil
  then show ?case by (simp add: secWanted_def callsTracked_def)
next
  case (Cons e rest)
  note IH = Cons.IH
  note ext = Cons.prems(1)
  note tr = Cons.prems(2)
  have split: "secWanted resolveTicker tc0 (e # rest)
      = secWanted resolveTicker tc0 [e] \<union> secWanted resolveTicker tc0 rest"
    by (auto simp: secWanted_def)
  show ?case
  proof (cases "\<exists>ticker. resolveTicker (company e) = Some ticker \<and> ticker \<noteq> []")
    case False
    then have none: "secWanted resolveTicker tc0 [e] = {}"
      by (auto simp: secWanted_def)
    from False have step: "secPromote getAsset resolveTicker w now (e # rest) (signals, (tc, calls))
        = secPromote getAsset resolveTicker w now rest (signals, (tc, calls))"
      by (auto split: option.splits)
    show ?thesis
      unfolding step split none using IH [OF ext tr] by simp
  next
    case True
    then obtain ticker where t: "resolveTicker (company e) = Some ticker" "ticker \<noteq> []"
      by blast
    let ?u = "toUpperCase ticker"
    have one: "secWanted resolveTicker tc0 [e] = (if alpacaCache tc0 ?u = None then {?u} else {})"
      using t by (auto simp: secWanted_def)
    show ?thesis
    proof (cases "alpacaCache tc ?u")
      case (Some cached)
      then have known: "alpacaCache tc0 ?u \<noteq> None \<or> ?u \<in> set calls"
        using tr by (auto simp: callsTracked_def)
      have sub: "secWanted resolveTicker tc0 [e] \<subseteq> set calls"
        unfolding one using known by auto
      obtain sg where step: "secPromote getAsset resolveTicker w now (e # rest) (signals, (tc, calls))
          = secPromote getAsset resolveTicker w now rest (sg, (tc, calls))"
        using t Some by (cases cached) (simp_all add: getCachedValidation_def)
      show ?thesis
        unfolding step split using IH [OF ext tr, of sg] sub by auto
    next
      case None
      obtain isValid tc' calls' where
        v: "validateWithAlpaca getAsset ticker (tc, calls) = (isValid, (tc', calls'))"
        by (metis prod.exhaust)
      have c': "calls' = calls @ [?u]"
        and d': "dom (alpacaCache tc') = insert ?u (dom (alpacaCache tc))"
        using validateWithAlpaca_uncached [OF None v] by simp_all
      have ext': "cacheExtends tc0 tc'"
        using validateWithAlpaca_step(1) [OF v ext] .
      have fresh: "alpacaCache tc0 ?u = None" "?u \<notin> set calls"
        using None tr by (auto simp: callsTracked_def)
      have tr': "callsTracked tc0 tc' calls'"
        using tr fresh unfolding callsTracked_def c' d' by auto
      obtain sg where step: "secPromote getAsset resolveTicker w now (e # rest) (signals, (tc, calls))
          = secPromote getAsset resolveTicker w now rest (sg, (tc', calls'))"
        using t None v by (cases isValid) (simp_all add: getCachedValidation_def)
      have "secWanted resolveTicker tc0 [e] = {?u}"
        unfolding one using fresh by simp
      then show ?thesis
        unfolding step split using IH [OF ext' tr', of sg] c' by auto
    qed
  qed
qed

lemma redditPromote_calls:
  assumes "cacheExtends tc0 tc" "callsTracked tc0 tc calls"
  shows "set (snd (snd (redditPromote getAsset halfLife now tickerData (signals, (tc, calls)))))
       = set calls \<union> redditWanted tc0 tickerData
     \<and> distinct (snd (snd (redditPromote getAsset halfLife now tickerData (signals, (tc, calls)))))"
  using assms
proof (induction tickerData arbitrary: signals tc calls)
  case Nil
  then show ?case by (simp add: redditWanted_def callsTracked_def)
next
  case (Cons a rest)
  obtain sy d where a: "a = (sy, d)" by (cases a)
  note IH = Cons.IH
  note ext = Cons.prems(1)
  note tr = Cons.prems(2)
  let ?u = "toUpperCase sy"
  have split: "redditWanted tc0 (a # rest) = redditWanted tc0 [a] \<union> redditWanted tc0 rest"
    by (auto simp: redditWanted_def)
  have sec: "isKnownSecTicker tc sy = isKnownSecTicker tc0 sy"
    using ext by (rule isKnownSecTicker_extends)
  have one: "redditWanted tc0 [a]
      = (if mentions d \<ge> 2 \<and> \<not> isKnownSecTicker tc0 sy \<and> alpacaCache tc0 ?u = None then {?u} else {})"
    by (auto simp: redditWanted_def a)
  show ?case
  proof (cases "mentions d \<ge> 2 \<and> \<not> isKnownSecTicker tc0 sy")
    case False
    then have none: "redditWanted tc0 [a] = {}"
      unfolding one by auto
    obtain sg where step: "redditPromote getAsset halfLife now (a # rest) (signals, (tc, calls))
        = redditPromote getAsset halfLife now rest (sg, (tc, calls))"
      using False sec a by (cases "mentions d \<ge> 2") auto
    show ?thesis
      unfolding step split none using IH [OF ext tr, of sg] by simp
  next
    case True
    show ?thesis
    proof (cases "alpacaCache tc ?u")
      case (Some cached)
      then have known: "alpacaCache tc0 ?u \<noteq> None \<or> ?u \<in> set calls"
        using tr by (auto simp: callsTracked_def)
      have sub: "redditWanted tc0 [a] \<subseteq> set calls"
        unfolding one using known by auto
      obtain sg where step: "redditPromote getAsset halfLife now (a # rest) (signals, (tc, calls))
          = redditPromote getAsset halfLife now rest (sg, (tc, calls))"
        using True sec a Some by (cases cached) (simp_all add: getCachedValidation_def)
      show ?thesis
        unfolding step split using IH [OF ext tr, of sg] sub by auto
    next
      case None
      obtain isValid tc' calls' where
        v: "validateWithAlpaca getAsset sy (tc, calls) = (isValid, (tc', calls'))"
        by (metis prod.exhaust)
      have c': "calls' = calls @ [?u]"
        and d': "dom (alpacaCache tc') = insert ?u (dom (alpacaCache tc))"
        using validateWithAlpaca_uncached [OF None v] by simp_all
      have ext': "cacheExtends tc0 tc'"
        using validateWithAlpaca_step(1) [OF v ext] .
      have fresh: "alpacaCache tc0 ?u = None" "?u \<notin> set calls"
        using None tr by (auto simp: callsTracked_def)
      have tr': "callsTracked tc0 tc' calls'"
        using tr fresh unfolding callsTracked_def c' d' by auto
      obtain sg where step: "redditPromote getAsset halfLife now (a # rest) (signals, (tc, calls))
          = redditPromote getAsset halfLife now rest (sg, (tc', calls'))"
        using True sec a None v by (cases isValid) (simp_all add: getCachedValidation_def)
      have "redditWanted tc0 [a] = {?u}"
        unfolding one using fresh True by simp
      then show ?thesis
        unfolding step split using IH [OF ext' tr', of sg] c' by auto
    qed
  qed
qed


lemma callsTracked_start: "callsTracked tc tc []"
  by (simp add: callsTracked_def)

text \<open>
  Claim C2, as stated, covers every gatherer. The SEC-filings gatherer never consults
  the authoritative set: with \<open>AAPL\<close> in the loaded set and no cached validation, it
  passes \<open>AAPL\<close> to the external asset lookup.
\<close>

theorem sec_gatherer_queries_sec_ticker_counterexample:
  "isKnownSecTicker \<lparr>secTickers = Some {''AAPL''}, lastSecRefresh = 0, alpacaCache = Map.empty\<rparr> ''AAPL''
   \<and> snd (snd (gatherSECFilings (\<lambda>s. Asset True) (\<lambda>c. Some ''AAPL'') \<lparr>sec_8k = 1, sec_4 = 1\<rparr> 0
        [\<lparr>company = ''Apple Inc.'', form = ''8-K'', updated = 0\<rparr>]
        (\<lparr>secTickers = Some {''AAPL''}, lastSecRefresh = 0, alpacaCache = Map.empty\<rparr>, [])))
      = [''AAPL'']"
  by (simp add: gatherSECFilings_def isKnownSecTicker_def getCachedValidation_def
      validateWithAlpaca_def text_defs Let_def)

text \<open>
  Claim C2, amended: in every state of the cache and for every behaviour of the asset
  lookup, an execution of the Reddit gatherer's promotion loop performs the external
  check for no symbol of the loaded authoritative set, and leaves that set unchanged:
  it checks, once each, exactly the symbols with at least two mentions that are neither
  in the authoritative set nor have a cached validation. The SEC-filings gatherer does
  not consult the authoritative set: it checks, once each, exactly the tickers its
  first 15 entries resolve to that have no cached validation, whether or not they are
  in the authoritative set. In both gatherers a symbol with a cached validation is
  never checked externally.
\<close>

theorem reddit_gatherer_skips_sec_tickers:
  "(gatherRedditPromotion getAsset halfLife now tickerData (tc, []) = (signals, (tc', calls))
      \<longrightarrow> secTickers tc' = secTickers tc
          \<and> (\<forall>u\<in>set calls. \<not> isKnownSecTicker tc u \<and> alpacaCache tc u = None)
          \<and> distinct calls
          \<and> (\<forall>u. u \<in> set calls \<longleftrightarrow>
                (\<exists>(sy, d)\<in>set tickerData. mentions d \<ge> 2 \<and> \<not> isKnownSecTicker tc sy
                    \<and> u = toUpperCase sy \<and> alpacaCache tc u = None)))
   \<and> (gatherSECFilings getAsset resolveTicker w now entries (tc, []) = (signals2, (tc2, calls2))
      \<longrightarrow> secTickers tc2 = secTickers tc \<and> (\<forall>u\<in>set calls2. alpacaCache tc u = None)
          \<and> distinct calls2
          \<and> (\<forall>u. u \<in> set calls2 \<longleftrightarrow>
                (\<exists>e\<in>set (take 15 entries). \<exists>ticker.
                    resolveTicker (company e) = Some ticker \<and> ticker \<noteq> []
                    \<and> u = toUpperCase ticker \<and> alpacaCache tc u = None)))"
proof (intro conjI impI)
  assume g: "gatherRedditPromotion getAsset halfLife now tickerData (tc, []) = (signals, (tc', calls))"
  have "cacheExtends tc (fst (snd (redditPromote getAsset halfLife now tickerData ([], (tc, [])))))
    \<and> callsUncached tc (snd (snd (redditPromote getAsset halfLife now tickerData ([], (tc, [])))))
    \<and> callsOutsideSec tc (snd (snd (redditPromote getAsset halfLife now tickerData ([], (tc, [])))))"
    by (rule redditPromote_invariant)
       (simp_all add: cacheExtends_refl callsUncached_def callsOutsideSec_def)
  with g have i: "cacheExtends tc tc'" "callsUncached tc calls" "callsOutsideSec tc calls"
    by (simp_all add: gatherRedditPromotion_def)
  from i(1) show "secTickers tc' = secTickers tc"
    by (simp add: cacheExtends_def)
  from i(2,3) show "\<forall>u\<in>set calls. \<not> isKnownSecTicker tc u \<and> alpacaCache tc u = None"
    by (simp add: callsUncached_def callsOutsideSec_def)
  have "set (snd (snd (redditPromote getAsset halfLife now tickerData ([], (tc, [])))))
       = set [] \<union> redditWanted tc tickerData
     \<and> distinct (snd (snd (redditPromote getAsset halfLife now tickerData ([], (tc, [])))))"
    by (rule redditPromote_calls [OF cacheExtends_refl callsTracked_start])
  with g have e: "set calls = redditWanted tc tickerData" and d: "distinct calls"
    by (simp_all add: gatherRedditPromotion_def)
  from d show "distinct calls" .
  show "\<forall>u. u \<in> set calls \<longleftrightarrow>
                (\<exists>(sy, d)\<in>set tickerData. mentions d \<ge> 2 \<and> \<not> isKnownSecTicker tc sy
                    \<and> u = toUpperCase sy \<and> alpacaCache tc u = None)"
    unfolding e redditWanted_def by simp
next
  assume g: "gatherSECFilings getAsset resolveTicker w now entries (tc, []) = (signals2, (tc2, calls2))"
  have "cacheExtends tc (fst (snd (secPromote getAsset resolveTicker w now (take 15 entries) ([], (tc, [])))))
    \<and> callsUncached tc (snd (snd (secPromote getAsset resolveTicker w now (take 15 entries) ([], (tc, [])))))"
    by (rule secPromote_invariant) (simp_all add: cacheExtends_refl callsUncached_def)
  with g have i: "cacheExtends tc tc2" "callsUncached tc calls2"
    by (simp_all add: gatherSECFilings_def)
  from i(1) show "secTickers tc2 = secTickers tc"
    by (simp add: cacheExtends_def)
  from i(2) show "\<forall>u\<in>set calls2. alpacaCache tc u = None"
    by (simp add: callsUncached_def)
  have "set (snd (snd (secPromote getAsset resolveTicker w now (take 15 entries) ([], (tc, [])))))
       = set [] \<union> secWanted resolveTicker tc (take 15 entries)
     \<and> distinct (snd (snd (secPromote getAsset resolveTicker w now (take 15 entries) ([], (tc, [])))))"
    by (rule secPromote_calls [OF cacheExtends_refl callsTracked_start])
  with g have e: "set calls2 = secWanted resolveTicker tc (take 15 entries)" and d: "distinct calls2"
    by (simp_all add: gatherSECFilings_def)
  from d show "distinct calls2" .
  show "\<forall>u. u \<in> set calls2 \<longleftrightarrow>
                (\<exists>e\<in>set (take 15 entries). \<exists>ticker.
                    resolveTicker (company e) = Some ticker \<and> ticker \<noteq> []
                    \<and> u = toUpperCase ticker \<and> alpacaCache tc u = None)"
    unfolding e secWanted_def by simp
qed

text \<open>
  The amended claim at a cache that knows \<open>AAPL\<close> and \<open>MSFT\<close> and has a negative
  validation for \<open>TSLA\<close>: the Reddit loop promotes \<open>AAPL\<close> and \<open>GME\<close> and asks the
  broker about \<open>GME\<close> only; the SEC loop asks about \<open>AAPL\<close> and \<open>MSFT\<close>, both in the
  authoritative set, and not about \<open>TSLA\<close>.
\<close>

theorem reddit_gatherer_skips_sec_tickers_witness:
  "snd (snd (gatherRedditPromotion (\<lambda>s. Asset True) 120 0 exampleTickerData (exampleCache, []))) = [''GME'']
   \<and> map symbol (fst (gatherRedditPromotion (\<lambda>s. Asset True) 120 0 exampleTickerData (exampleCache, [])))
       = [''AAPL'', ''gme'']
   \<and> isKnownSecTicker exampleCache ''AAPL'' \<and> \<not> isKnownSecTicker exampleCache ''GME''
   \<and> snd (snd (gatherSECFilings (\<lambda>s. Asset True) exampleResolve \<lparr>sec_8k = 1, sec_4 = 1\<rparr> 0
        exampleFilings (exampleCache, []))) = [''AAPL'', ''MSFT'']
   \<and> map symbol (fst (gatherSECFilings (\<lambda>s. Asset True) exampleResolve \<lparr>sec_8k = 1, sec_4 = 1\<rparr> 0
        exampleFilings (exampleCache, []))) = [''AAPL'', ''msft'']
   \<and> isKnownSecTicker exampleCache ''MSFT''
   \<and> ''MSFT'' \<in> set (snd (snd (gatherSECFilings (\<lambda>s. Asset True) exampleResolve \<lparr>sec_8k = 1, sec_4 = 1\<rparr> 0
        exampleFilings (exampleCache, []))))
   \<and> ''GME'' \<in> set (snd (snd (gatherRedditPromotion (\<lambda>s. Asset True) 120 0 exampleTickerData
        (exampleCache, []))))"
proof -
  let ?r = "gatherRedditPromotion (\<lambda>s. Asset True) 120 0 exampleTickerData (exampleCache, [])"
  let ?s = "gatherSECFilings (\<lambda>s. Asset True) exampleResolve \<lparr>sec_8k = 1, sec_4 = 1\<rparr> 0
        exampleFilings (exampleCache, [])"
  have r: "snd (snd ?r) = [''GME'']" "map symbol (fst ?r) = [''AAPL'', ''gme'']"
    by (simp_all add: gatherRedditPromotion_def exampleTickerData_def exampleCache_def
        isKnownSecTicker_def getCachedValidation_def validateWithAlpaca_def redditSignal_def
        text_defs Let_def)
  have s: "snd (snd ?s) = [''AAPL'', ''MSFT'']" "map symbol (fst ?s) = [''AAPL'', ''msft'']"
    by (simp_all add: gatherSECFilings_def exampleFilings_def exampleResolve_def exampleCache_def
        getCachedValidation_def validateWithAlpaca_def secSignal_def text_defs Let_def)
  have k: "isKnownSecTicker exampleCache ''AAPL''" "\<not> isKnownSecTicker exampleCache ''GME''"
    "isKnownSecTicker exampleCache ''MSFT''"
    by (simp_all add: isKnownSecTicker_def exampleCache_def text_defs)
  have hr: "?r = (fst ?r, (fst (snd ?r), snd (snd ?r)))" by simp
  have hs: "?s = (fst ?s, (fst (snd ?s), snd (snd ?s)))" by simp
  note th = reddit_gatherer_skips_sec_tickers
    [of "\<lambda>s. Asset True" 120 0 exampleTickerData exampleCache "fst ?r" "fst (snd ?r)" "snd (snd ?r)"
        exampleResolve "\<lparr>sec_8k = 1, sec_4 = 1\<rparr>" exampleFilings "fst ?s" "fst (snd ?s)" "snd (snd ?s)"]
  note thr = th [THEN conjunct1, THEN mp, OF hr]
  note ths = th [THEN conjunct2, THEN mp, OF hs]
  have wr: "\<exists>(sy, d)\<in>set exampleTickerData. mentions d \<ge> 2 \<and> \<not> isKnownSecTicker exampleCache sy
                    \<and> ''GME'' = toUpperCase sy \<and> alpacaCache exampleCache ''GME'' = None"
    by (simp add: exampleTickerData_def exampleCache_def isKnownSecTicker_def text_defs)
  have ws: "\<exists>e\<in>set (take 15 exampleFilings). \<exists>ticker.
                    exampleResolve (company e) = Some ticker \<and> ticker \<noteq> []
                    \<and> ''MSFT'' = toUpperCase ticker \<and> alpacaCache exampleCache ''MSFT'' = None"
    by (simp add: exampleFilings_def exampleResolve_def exampleCache_def text_defs)
  have mr: "''GME'' \<in> set (snd (snd ?r))"
    using thr [THEN conjunct2, THEN conjunct2, THEN conjunct2, THEN spec, of "''GME''"] wr
    by (rule iffD2)
  have ms: "''MSFT'' \<in> set (snd (snd ?s))"
    using ths [THEN conjunct2, THEN conjunct2, THEN conjunct2, THEN spec, of "''MSFT''"] ws
    by (rule iffD2)
  from r s k mr ms show ?thesis by simp
qed

subsection \<open>Entry selection\<close>

text \<open>The loop adds the candidates that pass the floor, in order, until the cap is reached.\<close>

lemma entryLoop_take:
  "entryLoop cfg account npos rs candidates =
     candidates @ take (nat (max_positions cfg - int npos) - length candidates)
       (map (buyCandidateOf cfg account) (filter (\<lambda>r. \<not> entryNotional cfg account r < 100) rs))"
proof (induction rs arbitrary: candidates)
  case Nil
  then show ?case by simp
next
  case (Cons r rs)
  show ?case
  proof (cases "int npos + int (length candidates) \<ge> max_positions cfg")
    case True
    then have "nat (max_positions cfg - int npos) - length candidates = 0" by simp
    with True show ?thesis by simp
  next
    case False
    then have room: "nat (max_positions cfg - int npos) - length candidates
        = Suc (nat (max_positions cfg - int npos) - Suc (length candidates))"
      by simp
    show ?thesis
    proof (cases "entryNotional cfg account r < 100")
      case True
      with False show ?thesis by (simp add: Cons.IH)
    next
      case skip: False
      with False show ?thesis
        by (simp add: Cons.IH room)
    qed
  qed
qed

lemma selectEntries_eq:
  "selectEntries cfg research positions account =
     take (nat (max_positions cfg - int (length positions)))
       (map (buyCandidateOf cfg account)
          (filter (\<lambda>r. \<not> entryNotional cfg account r < 100)
             (take 3 (sort_key (\<lambda>r. - confidence r) (filter (eligible cfg positions) research)))))"
proof -
  have f: "filter (\<lambda>r. res_symbol r \<notin> set (map pos_symbol positions))
            (filter (\<lambda>r. verdict r = BUY \<and> confidence r \<ge> min_analyst_confidence cfg) research)
          = filter (eligible cfg positions) research"
    by (auto simp: eligible_def intro: filter_cong)
  show ?thesis
  proof (cases "int (length positions) \<ge> max_positions cfg")
    case True
    then have "nat (max_positions cfg - int (length positions)) = 0" by simp
    with True show ?thesis by (simp add: selectEntries_def)
  next
    case False
    then show ?thesis
      unfolding selectEntries_def Let_def f
      by (simp add: entryLoop_take)
  qed
qed


lemma buy_confidence_of [simp]: "buy_confidence (buyCandidateOf cfg account r) = confidence r"
  by (simp add: buyCandidateOf_def)

lemma notional_of [simp]: "notional (buyCandidateOf cfg account r) = entryNotional cfg account r"
  by (simp add: buyCandidateOf_def)

lemma sorted_desc_selection:
  "sorted (map (\<lambda>r. - confidence r)
     (filter P (take n (sort_key (\<lambda>r. - confidence r) xs))))"
proof -
  have "sorted (map (\<lambda>r. - confidence r) (sort_key (\<lambda>r. - confidence r) xs))"
    by (rule sorted_sort_key)
  then have "sorted (take n (map (\<lambda>r. - confidence r) (sort_key (\<lambda>r. - confidence r) xs)))"
    by (rule sorted_wrt_take)
  then have "sorted (map (\<lambda>r. - confidence r) (take n (sort_key (\<lambda>r. - confidence r) xs)))"
    by (simp add: take_map)
  then show ?thesis
    by (rule sorted_filter)
qed

lemma top_five_sorted:
  fixes rs :: "ResearchResult list"
  assumes "mset (map confidence rs) = mset [9 / 10, 8 / 10, 7 / 10, 6 / 10, 5 / 10]"
  shows "map confidence (sort_key (\<lambda>r. - confidence r) rs) = [9 / 10, 8 / 10, 7 / 10, 6 / 10, 5 / 10]"
proof -
  let ?k = "\<lambda>r. - confidence r"
  let ?target = "[- (9 / 10), - (8 / 10), - (7 / 10), - (6 / 10), - (5 / 10) :: real]"
  have "mset (map ?k rs) = image_mset uminus (mset (map confidence rs))"
    by (simp add: multiset.map_comp comp_def)
  also have "\<dots> = mset ?target"
    unfolding assms by simp
  finally have m: "mset (map ?k rs) = mset ?target" .
  have "sort (map ?k rs) = map ?k (sort_key ?k rs)"
    by (rule properties_for_sort) simp_all
  moreover have "sort (map ?k rs) = ?target"
    by (rule properties_for_sort [OF m [symmetric]]) simp
  ultimately have "map ?k (sort_key ?k rs) = ?target" by simp
  then have "map uminus (map ?k (sort_key ?k rs)) = map uminus ?target" by simp
  then show ?thesis by (simp add: comp_def)
qed

text \<open>
  Claim C4: every candidate that \<open>selectEntries\<close> returns comes from a BUY verdict with
  confidence at least \<open>min_analyst_confidence\<close> whose symbol is not held, and carries
  the notional \<open>min (cash * (min 20 sizePct / 100) * confidence) max_position_value\<close>,
  which is at least 100; the candidates are in descending order of confidence, at most
  3, and at most \<open>max_positions\<close> less the number of positions held. For five BUY
  verdicts with confidences 0.9, 0.8, 0.7, 0.6, 0.5 in any order, all meeting the
  minimum confidence and the floor, \<open>max_positions = 2\<close> and no position held, the
  result is the two verdicts of confidence 0.9 and 0.8, in that order.
\<close>

theorem selectEntries_ranked_capped:
  "(\<forall>c\<in>set (selectEntries cfg research positions account).
       \<exists>r\<in>set research.
         c = buyCandidateOf cfg account r
         \<and> verdict r = BUY \<and> confidence r \<ge> min_analyst_confidence cfg
         \<and> res_symbol r \<notin> set (map pos_symbol positions)
         \<and> buy_symbol c = res_symbol r \<and> buy_confidence c = confidence r
         \<and> notional c = min (cash account * (min 20 (position_size_pct_of_cash cfg) / 100) * confidence r)
                            (max_position_value cfg)
         \<and> notional c \<ge> 100)
   \<and> sorted (map (\<lambda>c. - buy_confidence c) (selectEntries cfg research positions account))
   \<and> length (selectEntries cfg research positions account) \<le> 3
   \<and> length (selectEntries cfg research positions account)
        \<le> nat (max_positions cfg - int (length positions))
   \<and> (\<forall>rs. mset (map confidence rs) = mset [9 / 10, 8 / 10, 7 / 10, 6 / 10, 5 / 10]
          \<and> (\<forall>r\<in>set rs. verdict r = BUY \<and> entryNotional cfg account r \<ge> 100)
          \<and> min_analyst_confidence cfg \<le> 5 / 10 \<and> max_positions cfg = 2
          \<longrightarrow> selectEntries cfg rs [] account
                = map (buyCandidateOf cfg account) (take 2 (sort_key (\<lambda>r. - confidence r) rs))
              \<and> map buy_confidence (selectEntries cfg rs [] account) = [9 / 10, 8 / 10])"
proof (intro conjI allI impI ballI)
  fix c assume c: "c \<in> set (selectEntries cfg research positions account)"
  let ?top = "take 3 (sort_key (\<lambda>r. - confidence r) (filter (eligible cfg positions) research))"
  from c have "c \<in> set (map (buyCandidateOf cfg account)
      (filter (\<lambda>r. \<not> entryNotional cfg account r < 100) ?top))"
    unfolding selectEntries_eq by (rule in_set_takeD)
  then obtain r where r: "r \<in> set ?top" "\<not> entryNotional cfg account r < 100"
    "c = buyCandidateOf cfg account r"
    by auto
  from r(1) have "r \<in> set (sort_key (\<lambda>r. - confidence r) (filter (eligible cfg positions) research))"
    by (rule in_set_takeD)
  then have e: "r \<in> set research" "eligible cfg positions r" by simp_all
  show "\<exists>r\<in>set research.
         c = buyCandidateOf cfg account r
         \<and> verdict r = BUY \<and> confidence r \<ge> min_analyst_confidence cfg
         \<and> res_symbol r \<notin> set (map pos_symbol positions)
         \<and> buy_symbol c = res_symbol r \<and> buy_confidence c = confidence r
         \<and> notional c = min (cash account * (min 20 (position_size_pct_of_cash cfg) / 100) * confidence r)
                            (max_position_value cfg)
         \<and> notional c \<ge> 100"
  proof (intro bexI [of _ r] conjI)
    show "c = buyCandidateOf cfg account r" by (rule r(3))
    show "verdict r = BUY" "confidence r \<ge> min_analyst_confidence cfg"
      "res_symbol r \<notin> set (map pos_symbol positions)"
      using e(2) by (simp_all add: eligible_def)
    show "buy_symbol c = res_symbol r" "buy_confidence c = confidence r"
      unfolding r(3) by (simp_all add: buyCandidateOf_def)
    show "notional c = min (cash account * (min 20 (position_size_pct_of_cash cfg) / 100) * confidence r)
                            (max_position_value cfg)"
      unfolding r(3) notional_of entryNotional_def Let_def by (rule refl)
    show "notional c \<ge> 100"
      unfolding r(3) notional_of using r(2) by (simp only: not_less)
    show "r \<in> set research" by (rule e(1))
  qed
next
  have "sorted (map (\<lambda>r. - confidence r)
     (filter (\<lambda>r. \<not> entryNotional cfg account r < 100)
       (take 3 (sort_key (\<lambda>r. - confidence r) (filter (eligible cfg positions) research)))))"
    by (rule sorted_desc_selection)
  then have "sorted (take (nat (max_positions cfg - int (length positions)))
     (map (\<lambda>r. - confidence r)
     (filter (\<lambda>r. \<not> entryNotional cfg account r < 100)
       (take 3 (sort_key (\<lambda>r. - confidence r) (filter (eligible cfg positions) research))))))"
    by (rule sorted_wrt_take)
  then show "sorted (map (\<lambda>c. - buy_confidence c) (selectEntries cfg research positions account))"
    unfolding selectEntries_eq by (simp add: take_map comp_def)
next
  have "length (filter (\<lambda>r. \<not> entryNotional cfg account r < 100)
       (take 3 (sort_key (\<lambda>r. - confidence r) (filter (eligible cfg positions) research)))) \<le> 3"
    by (rule order_trans [OF length_filter_le]) simp
  then show "length (selectEntries cfg research positions account) \<le> 3"
    unfolding selectEntries_eq by simp
next
  show "length (selectEntries cfg research positions account)
        \<le> nat (max_positions cfg - int (length positions))"
    unfolding selectEntries_eq by simp
next
  fix rs
  assume a: "mset (map confidence rs) = mset [9 / 10, 8 / 10, 7 / 10, 6 / 10, 5 / 10]
          \<and> (\<forall>r\<in>set rs. verdict r = BUY \<and> entryNotional cfg account r \<ge> 100)
          \<and> min_analyst_confidence cfg \<le> 5 / 10 \<and> max_positions cfg = 2"
  let ?srt = "sort_key (\<lambda>r. - confidence r) rs"
  have conf: "map confidence ?srt = [9 / 10, 8 / 10, 7 / 10, 6 / 10, 5 / 10]"
    using a by (intro top_five_sorted) simp
  have cs: "set (map confidence rs) = set [9 / 10, 8 / 10, 7 / 10, 6 / 10, 5 / 10 :: real]"
    using a by (metis set_mset_mset)
  have ge: "\<forall>r\<in>set rs. confidence r \<ge> 5 / 10"
  proof
    fix r assume "r \<in> set rs"
    then have "confidence r \<in> set (map confidence rs)" by simp
    then have "confidence r \<in> set [9 / 10, 8 / 10, 7 / 10, 6 / 10, 5 / 10 :: real]"
      unfolding cs .
    then show "confidence r \<ge> 5 / 10" by auto
  qed
  have el: "filter (eligible cfg []) rs = rs"
    using a ge by (auto simp: eligible_def intro!: filter_True)
  have ok: "\<forall>r\<in>set (take 3 ?srt). \<not> entryNotional cfg account r < 100"
  proof
    fix r assume "r \<in> set (take 3 ?srt)"
    then have "r \<in> set ?srt" by (rule in_set_takeD)
    then have "r \<in> set rs" by simp
    with a have "entryNotional cfg account r \<ge> 100" by blast
    then show "\<not> entryNotional cfg account r < 100" by simp
  qed
  have fl: "filter (\<lambda>r. \<not> entryNotional cfg account r < 100) (take 3 ?srt) = take 3 ?srt"
    using ok by (intro filter_True) 
  have sel: "selectEntries cfg rs [] account = map (buyCandidateOf cfg account) (take 2 ?srt)"
    unfolding selectEntries_eq el fl using a by (simp add: take_map)
  show "selectEntries cfg rs [] account
                = map (buyCandidateOf cfg account) (take 2 (sort_key (\<lambda>r. - confidence r) rs))"
    by (rule sel)
  have "map buy_confidence (selectEntries cfg rs [] account) = take 2 (map confidence ?srt)"
    unfolding sel by (simp add: take_map comp_def)
  then show "map buy_confidence (selectEntries cfg rs [] account) = [9 / 10, 8 / 10]"
    unfolding conf by simp
qed

text \<open>The claim at five verdicts given out of order, with 10000 in cash.\<close>

theorem selectEntries_ranked_capped_witness:
  "selectEntries exampleConfig exampleResearch [] \<lparr>cash = 10000\<rparr>
     = [\<lparr>buy_symbol = ''B'', buy_confidence = 9 / 10, buy_reason = ''r'', notional = 1800, useOptions = False\<rparr>,
        \<lparr>buy_symbol = ''D'', buy_confidence = 8 / 10, buy_reason = ''r'', notional = 1600, useOptions = False\<rparr>]
   \<and> map buy_confidence (selectEntries exampleConfig exampleResearch [] \<lparr>cash = 10000\<rparr>) = [9 / 10, 8 / 10]"
proof -
  have m: "mset (map confidence exampleResearch) = mset [9 / 10, 8 / 10, 7 / 10, 6 / 10, 5 / 10]"
    by (simp add: exampleResearch_def)
  have v: "\<forall>r\<in>set exampleResearch. verdict r = BUY \<and> entryNotional exampleConfig \<lparr>cash = 10000\<rparr> r \<ge> 100"
    by (simp add: exampleResearch_def entryNotional_def exampleConfig_def)
  have c: "min_analyst_confidence exampleConfig \<le> 5 / 10" "max_positions exampleConfig = 2"
    by (simp_all add: exampleConfig_def)
  have s: "map buy_confidence (selectEntries exampleConfig exampleResearch [] \<lparr>cash = 10000\<rparr>) = [9 / 10, 8 / 10]"
    using selectEntries_ranked_capped [of exampleConfig exampleResearch "[]" "\<lparr>cash = 10000\<rparr>"] m v c
    by blast
  have e: "selectEntries exampleConfig exampleResearch [] \<lparr>cash = 10000\<rparr>
     = [\<lparr>buy_symbol = ''B'', buy_confidence = 9 / 10, buy_reason = ''r'', notional = 1800, useOptions = False\<rparr>,
        \<lparr>buy_symbol = ''D'', buy_confidence = 8 / 10, buy_reason = ''r'', notional = 1600, useOptions = False\<rparr>]"
    by (simp add: selectEntries_def exampleResearch_def exampleConfig_def entryNotional_def
        buyCandidateOf_def Let_def)
  from e s show ?thesis by simp
qed

subsection \<open>Staleness\<close>

text \<open>Past the minimum hold time, the result in terms of the three components of the score.\<close>

lemma analyzeStaleness_Some:
  assumes "holdHours now entry \<ge> stale_min_hold_hours cfg"
  shows "analyzeStaleness cfg now currentPrice currentSocialVolume (Some entry) =
     Some (let hD = holdDays now entry;
               pnlPct = pnlPctSinceEntry currentPrice entry;
               timeScore = timeComponent cfg hD;
               priceScore = priceComponent cfg hD pnlPct;
               volumeScore = volumeComponent cfg currentSocialVolume entry;
               stalenessScore = min 100 (timeScore + priceScore + volumeScore);
               stale = (stalenessScore \<ge> 70
                        \<or> (hD \<ge> stale_max_hold_days cfg \<and> pnlPct < stale_min_gain_pct cfg))
           in \<lparr>isStale = stale,
               stale_reason = (if stale then StalenessScore stalenessScore hD else OkScore stalenessScore),
               staleness_score = stalenessScore\<rparr>)"
proof -
  have p: "(if entry_price entry > 0
            then map_option (\<lambda>q. q * 100) (safeDiv (currentPrice - entry_price entry) (entry_price entry))
            else Some 0) = Some (pnlPctSinceEntry currentPrice entry)"
    by (simp add: pnlPctSinceEntry_def safeDiv_def)
  have t: "(if holdDays now entry \<ge> stale_max_hold_days cfg then Some 40
            else if holdDays now entry \<ge> stale_mid_hold_days cfg
            then safeDiv (20 * (holdDays now entry - stale_mid_hold_days cfg))
                   (stale_max_hold_days cfg - stale_mid_hold_days cfg)
            else Some 0) = Some (timeComponent cfg (holdDays now entry))"
    by (simp add: timeComponent_def safeDiv_def)
  have v: "(if entry_social_volume entry > 0
            then safeDiv currentSocialVolume (entry_social_volume entry)
            else Some 1) = Some (if entry_social_volume entry > 0
            then currentSocialVolume / entry_social_volume entry else 1)"
    by (simp add: safeDiv_def)
  show ?thesis
    unfolding analyzeStaleness_def option.case Let_def p t v
    using assms
    by (simp add: priceComponent_def volumeComponent_def Let_def)
qed

lemma analyzeStaleness_early:
  assumes "holdHours now entry < stale_min_hold_hours cfg"
  shows "analyzeStaleness cfg now currentPrice currentSocialVolume (Some entry) =
     Some \<lparr>isStale = False, stale_reason = TooEarly (holdHours now entry), staleness_score = 0\<rparr>"
proof -
  have p: "(if entry_price entry > 0
            then map_option (\<lambda>q. q * 100) (safeDiv (currentPrice - entry_price entry) (entry_price entry))
            else Some 0) = Some (pnlPctSinceEntry currentPrice entry)"
    by (simp add: pnlPctSinceEntry_def safeDiv_def)
  show ?thesis
    unfolding analyzeStaleness_def option.case Let_def p
    using assms by simp
qed

lemma timeComponent_range: "0 \<le> timeComponent cfg hD \<and> timeComponent cfg hD \<le> 40"
proof -
  have "0 \<le> 20 * (hD - m) / (M - m) \<and> 20 * (hD - m) / (M - m) \<le> 40"
    if "m \<le> hD" "hD < M" for m M :: real
  proof -
    have d: "0 < M - m" using that by simp
    have "20 * (hD - m) \<le> 40 * (M - m)" using that by simp
    then have "20 * (hD - m) / (M - m) \<le> 40"
      using d by (simp add: pos_divide_le_eq)
    moreover have "0 \<le> 20 * (hD - m) / (M - m)"
      using that d by simp
    ultimately show ?thesis by simp
  qed
  then show ?thesis
    by (simp add: timeComponent_def)
qed

lemma priceComponent_range: "0 \<le> priceComponent cfg hD pnl \<and> priceComponent cfg hD pnl \<le> 30"
  by (simp add: priceComponent_def)

lemma volumeComponent_range:
  "0 \<le> volumeComponent cfg vol entry \<and> volumeComponent cfg vol entry \<le> 30"
  by (simp add: volumeComponent_def Let_def)


lemma analyzeStaleness_total:
  "\<exists>r. analyzeStaleness cfg now currentPrice currentSocialVolume entryOpt = Some r
       \<and> 0 \<le> staleness_score r \<and> staleness_score r \<le> 100"
proof (cases entryOpt)
  case None
  then show ?thesis by (simp add: analyzeStaleness_def)
next
  case (Some entry)
  show ?thesis
  proof (cases "holdHours now entry < stale_min_hold_hours cfg")
    case True
    then show ?thesis
      using Some by (simp add: analyzeStaleness_early)
  next
    case False
    then have h: "holdHours now entry \<ge> stale_min_hold_hours cfg" by simp
    have "0 \<le> timeComponent cfg (holdDays now entry)
            + priceComponent cfg (holdDays now entry) (pnlPctSinceEntry currentPrice entry)
            + volumeComponent cfg currentSocialVolume entry"
      using timeComponent_range [of cfg "holdDays now entry"]
        priceComponent_range [of cfg "holdDays now entry" "pnlPctSinceEntry currentPrice entry"]
        volumeComponent_range [of cfg currentSocialVolume entry]
      by linarith
    then show ?thesis
      using Some by (simp add: analyzeStaleness_Some [OF h] Let_def)
  qed
qed

text \<open>
  Claim C6: under a structurally valid configuration (\<open>stale_min_hold_hours > 0\<close> and
  \<open>stale_max_hold_days > stale_mid_hold_days \<ge> 0\<close>), \<open>analyzeStaleness\<close> always
  answers a result (no division by zero is reached), the score of the result lies in
  \<open>[0, 100]\<close> whatever the price, the social volume and the entry record are, and a
  position held 0 hours (as any position held less than the minimum, or without an
  entry record) is not stale.
\<close>

theorem analyzeStaleness_total_bounded:
  assumes valid: "stale_min_hold_hours cfg > 0"
    "stale_max_hold_days cfg > stale_mid_hold_days cfg" "stale_mid_hold_days cfg \<ge> 0"
  shows "\<exists>r. analyzeStaleness cfg now currentPrice currentSocialVolume entryOpt = Some r
       \<and> 0 \<le> staleness_score r \<and> staleness_score r \<le> 100
       \<and> (entryOpt = None \<longrightarrow> \<not> isStale r \<and> staleness_score r = 0)
       \<and> (\<forall>entry. entryOpt = Some entry \<and> holdHours now entry = 0 \<longrightarrow> \<not> isStale r)
       \<and> (\<forall>entry. entryOpt = Some entry \<and> holdHours now entry < stale_min_hold_hours cfg
             \<longrightarrow> \<not> isStale r \<and> staleness_score r = 0)"
proof -
  obtain r where r: "analyzeStaleness cfg now currentPrice currentSocialVolume entryOpt = Some r"
    and b: "0 \<le> staleness_score r" "staleness_score r \<le> 100"
    using analyzeStaleness_total by blast
  have n: "entryOpt = None \<longrightarrow> \<not> isStale r \<and> staleness_score r = 0"
    using r by (auto simp: analyzeStaleness_def)
  have e: "\<not> isStale r \<and> staleness_score r = 0"
    if "entryOpt = Some entry" "holdHours now entry < stale_min_hold_hours cfg" for entry
    using r that by (auto simp: analyzeStaleness_early)
  have z: "\<not> isStale r" if "entryOpt = Some entry" "holdHours now entry = 0" for entry
    using e [of entry] that valid(1) by simp
  show ?thesis
    using r b n e z by blast
qed

text \<open>
  The claim at the example configuration: held 0 hours at half the entry price and no
  social volume, not stale; held 10 days, the score is capped at 100.
\<close>

theorem analyzeStaleness_total_bounded_witness:
  "analyzeStaleness exampleConfig 0 50 0 (Some exampleEntry)
     = Some \<lparr>isStale = False, stale_reason = TooEarly 0, staleness_score = 0\<rparr>
   \<and> holdHours 0 exampleEntry = 0
   \<and> analyzeStaleness exampleConfig 864000000 50 0 (Some exampleEntry)
     = Some \<lparr>isStale = True, stale_reason = StalenessScore 100 10, staleness_score = 100\<rparr>"
proof -
  have v: "stale_min_hold_hours exampleConfig > 0"
    "stale_max_hold_days exampleConfig > stale_mid_hold_days exampleConfig"
    "stale_mid_hold_days exampleConfig \<ge> 0"
    by (simp_all add: exampleConfig_def)
  have h: "holdHours 0 exampleEntry = 0"
    by (simp add: holdHours_def exampleEntry_def)
  obtain r where r: "analyzeStaleness exampleConfig 0 50 0 (Some exampleEntry) = Some r"
    and s: "\<forall>entry. Some exampleEntry = Some entry \<and> holdHours 0 entry = 0 \<longrightarrow> \<not> isStale r"
    and b: "0 \<le> staleness_score r" "staleness_score r \<le> 100"
    using analyzeStaleness_total_bounded [OF v, of 0 50 0 "Some exampleEntry"] by blast
  have a: "analyzeStaleness exampleConfig 0 50 0 (Some exampleEntry)
     = Some \<lparr>isStale = False, stale_reason = TooEarly 0, staleness_score = 0\<rparr>"
    by (simp add: analyzeStaleness_def holdHours_def holdDays_def exampleEntry_def exampleConfig_def
        safeDiv_def Let_def)
  have c: "analyzeStaleness exampleConfig 864000000 50 0 (Some exampleEntry)
     = Some \<lparr>isStale = True, stale_reason = StalenessScore 100 10, staleness_score = 100\<rparr>"
    by (simp add: analyzeStaleness_def holdHours_def holdDays_def exampleEntry_def exampleConfig_def
        safeDiv_def Let_def)
  from s h have "\<not> isStale r" by simp
  with a h c show ?thesis by simp
qed

text \<open>
  Claim C5, as stated, lets the hard ceiling apply when the hold time \<^emph>\<open>exceeds\<close> the
  max-hold threshold. The code applies it from the threshold on: held exactly
  \<open>stale_max_hold_days\<close> with a gain of 1% (below the floor of 5%) and an unchanged
  social volume, the score is 40 and the position is stale.
\<close>

theorem isStale_at_max_hold_counterexample:
  "map_option (\<lambda>r. (isStale r, staleness_score r))
      (analyzeStaleness exampleConfig 259200000 101 10 (Some exampleEntry)) = Some (True, 40)
   \<and> holdHours 259200000 exampleEntry \<ge> stale_min_hold_hours exampleConfig
   \<and> holdDays 259200000 exampleEntry = stale_max_hold_days exampleConfig
   \<and> pnlPctSinceEntry 101 exampleEntry = 1
   \<and> \<not> spec_isStale exampleConfig 40 (holdDays 259200000 exampleEntry) (pnlPctSinceEntry 101 exampleEntry)"
  by (simp add: analyzeStaleness_def holdHours_def holdDays_def exampleEntry_def exampleConfig_def
      safeDiv_def pnlPctSinceEntry_def spec_isStale_def Let_def)

text \<open>
  Claim C5, amended: given an entry record and a hold time at or above the configured
  minimum hold hours, \<open>isStale\<close> is true exactly when the staleness score (the sum of
  the three components, capped at 100) reaches 70, or when the hold time is at or above
  the max-hold threshold and the P&L percentage is below the minimum-gain floor.
\<close>

theorem isStale_iff_score_or_ceiling:
  assumes "holdHours now entry \<ge> stale_min_hold_hours cfg"
  shows "\<exists>r. analyzeStaleness cfg now currentPrice currentSocialVolume (Some entry) = Some r
     \<and> staleness_score r =
         min 100 (timeComponent cfg (holdDays now entry)
                  + priceComponent cfg (holdDays now entry) (pnlPctSinceEntry currentPrice entry)
                  + volumeComponent cfg currentSocialVolume entry)
     \<and> isStale r =
         (staleness_score r \<ge> 70
          \<or> (holdDays now entry \<ge> stale_max_hold_days cfg
              \<and> pnlPctSinceEntry currentPrice entry < stale_min_gain_pct cfg))"
  by (simp add: analyzeStaleness_Some [OF assms] Let_def)

text \<open>The amended claim at the hold time equal to the max-hold threshold.\<close>

theorem isStale_iff_score_or_ceiling_witness:
  "analyzeStaleness exampleConfig 259200000 101 10 (Some exampleEntry)
     = Some \<lparr>isStale = True, stale_reason = StalenessScore 40 3, staleness_score = 40\<rparr>
   \<and> holdDays 259200000 exampleEntry \<ge> stale_max_hold_days exampleConfig
   \<and> pnlPctSinceEntry 101 exampleEntry < stale_min_gain_pct exampleConfig"
proof -
  have h: "holdHours 259200000 exampleEntry \<ge> stale_min_hold_hours exampleConfig"
    by (simp add: holdHours_def exampleEntry_def exampleConfig_def)
  have d: "holdDays 259200000 exampleEntry \<ge> stale_max_hold_days exampleConfig"
    "pnlPctSinceEntry 101 exampleEntry < stale_min_gain_pct exampleConfig"
    by (simp_all add: holdHours_def holdDays_def pnlPctSinceEntry_def exampleEntry_def exampleConfig_def)
  obtain r where r: "analyzeStaleness exampleConfig 259200000 101 10 (Some exampleEntry) = Some r"
    and i: "isStale r =
         (staleness_score r \<ge> 70
          \<or> (holdDays 259200000 exampleEntry \<ge> stale_max_hold_days exampleConfig
              \<and> pnlPctSinceEntry 101 exampleEntry < stale_min_gain_pct exampleConfig))"
    using isStale_iff_score_or_ceiling [OF h, of 101 10] by blast
  have a: "analyzeStaleness exampleConfig 259200000 101 10 (Some exampleEntry)
     = Some \<lparr>isStale = True, stale_reason = StalenessScore 40 3, staleness_score = 40\<rparr>"
    by (simp add: analyzeStaleness_def holdHours_def holdDays_def exampleEntry_def exampleConfig_def
        safeDiv_def Let_def)
  from i d have "isStale r" by simp
  with a d show ?thesis by simp
qed

subsection \<open>The Twitter read budget\<close>

lemma canSpendTwitterRead_exhausted:
  assumes "twitterDailyReads st = Some r" "MAX_DAILY_READS \<le> r"
    "twitterDailyReadReset st = Some t" "now - t \<le> ONE_DAY_MS"
  shows "canSpendTwitterRead now st = (False, st)"
  using assms by (simp add: canSpendTwitterRead_def Let_def)

lemma canSpendTwitterRead_rollover:
  assumes "now - (case twitterDailyReadReset st of None \<Rightarrow> 0 | Some t \<Rightarrow> t) > ONE_DAY_MS"
  shows "canSpendTwitterRead now st =
    (True, st\<lparr>twitterDailyReads := Some 0, twitterDailyReadReset := Some now\<rparr>)"
  using assms by (simp add: canSpendTwitterRead_def Let_def MAX_DAILY_READS_def)

lemma canSpendTwitterRead_just_reset:
  assumes "twitterDailyReads st = Some 0" "twitterDailyReadReset st = Some now"
  shows "canSpendTwitterRead now st = (True, st)"
  using assms by (simp add: canSpendTwitterRead_def Let_def MAX_DAILY_READS_def ONE_DAY_MS_def)

lemma twitterSearchRecent_after_reset:
  assumes "twitterDailyReads st = Some 0" "twitterDailyReadReset st = Some now"
    and "twitterSearchRecent token fetch now query st = (tweets, st')"
  shows "twitterDailyReadReset st' = Some now
    \<and> (twitterDailyReads st' = Some 0 \<or> twitterDailyReads st' = Some 1)"
  using assms canSpendTwitterRead_just_reset [OF assms(1,2)]
  by (cases "fetch query")
     (auto simp: twitterSearchRecent_def Let_def spendTwitterRead_def split: if_splits)

lemma gatherTwitterConfirmation_rollover:
  assumes en: "isTwitterEnabled token"
    and old: "now - (case twitterDailyReadReset st of None \<Rightarrow> 0 | Some t \<Rightarrow> t) > ONE_DAY_MS"
    and g: "gatherTwitterConfirmation token fetch now sy existingSentiment st = (res, st')"
  shows "twitterDailyReadReset st' = Some now
    \<and> (twitterDailyReads st' = Some 0 \<or> twitterDailyReads st' = Some 1)"
proof -
  let ?st1 = "st\<lparr>twitterDailyReads := Some 0, twitterDailyReadReset := Some now\<rparr>"
  have c: "canSpendTwitterRead now st = (True, ?st1)"
    using old by (rule canSpendTwitterRead_rollover)
  obtain tweets st2 where s: "twitterSearchRecent token fetch now (confirmationQuery sy) ?st1 = (tweets, st2)"
    by (metis prod.exhaust)
  have s2: "twitterDailyReadReset st2 = Some now
    \<and> (twitterDailyReads st2 = Some 0 \<or> twitterDailyReads st2 = Some 1)"
    by (rule twitterSearchRecent_after_reset [OF _ _ s]) simp_all
  show ?thesis
    using g en c s s2
    by (auto simp: gatherTwitterConfirmation_def Let_def split: if_splits option.splits)
qed

text \<open>
  Claim C7: when the stored read counter has reached 200 and the stored reset timestamp
  is at most 24 hours old, a confirmation lookup answers no result and leaves the state
  as it was, the fetch log included, so no request was sent. When the stored reset
  timestamp (0 if never stored) is more than 24 hours old, \<open>canSpendTwitterRead\<close> sets
  the counter to 0 and the reset timestamp to the current time before it compares the
  counter with the budget, and a lookup with Twitter enabled ends with the reset
  timestamp at the current time and at most one read counted.
\<close>

theorem twitter_budget_gate:
  "(twitterDailyReads st = Some r \<and> MAX_DAILY_READS \<le> r
      \<and> twitterDailyReadReset st = Some t \<and> now - t \<le> ONE_DAY_MS
      \<longrightarrow> gatherTwitterConfirmation token fetch now sy existingSentiment st = (None, st))
   \<and> (now - (case twitterDailyReadReset st of None \<Rightarrow> 0 | Some t \<Rightarrow> t) > ONE_DAY_MS
      \<longrightarrow> canSpendTwitterRead now st =
            (True, st\<lparr>twitterDailyReads := Some 0, twitterDailyReadReset := Some now\<rparr>)
          \<and> (isTwitterEnabled token
               \<longrightarrow> twitterDailyReadReset (snd (gatherTwitterConfirmation token fetch now sy existingSentiment st))
                     = Some now
                   \<and> twitterDailyReads (snd (gatherTwitterConfirmation token fetch now sy existingSentiment st))
                       \<in> {Some 0, Some 1}))"
proof (intro conjI impI)
  assume a: "twitterDailyReads st = Some r \<and> MAX_DAILY_READS \<le> r
      \<and> twitterDailyReadReset st = Some t \<and> now - t \<le> ONE_DAY_MS"
  then have "canSpendTwitterRead now st = (False, st)"
    by (intro canSpendTwitterRead_exhausted [of st r t now]) simp_all
  then show "gatherTwitterConfirmation token fetch now sy existingSentiment st = (None, st)"
    by (simp add: gatherTwitterConfirmation_def)
next
  assume old: "now - (case twitterDailyReadReset st of None \<Rightarrow> 0 | Some t \<Rightarrow> t) > ONE_DAY_MS"
  then show "canSpendTwitterRead now st =
            (True, st\<lparr>twitterDailyReads := Some 0, twitterDailyReadReset := Some now\<rparr>)"
    by (rule canSpendTwitterRead_rollover)
  assume en: "isTwitterEnabled token"
  let ?g = "gatherTwitterConfirmation token fetch now sy existingSentiment st"
  have r: "twitterDailyReadReset (snd ?g) = Some now
    \<and> (twitterDailyReads (snd ?g) = Some 0 \<or> twitterDailyReads (snd ?g) = Some 1)"
    by (rule gatherTwitterConfirmation_rollover [OF en old, of fetch sy existingSentiment "fst ?g"]) simp
  then show "twitterDailyReadReset (snd ?g) = Some now" by simp
  from r show "twitterDailyReads (snd ?g) \<in> {Some 0, Some 1}" by auto
qed

text \<open>
  The claim at a state with 200 reads: one second after the reset the lookup is refused
  and the state kept; one day and a second later the budget is reset and the lookup
  spends one read.
\<close>

theorem twitter_budget_gate_witness:
  "gatherTwitterConfirmation (Some ''token'')
      (\<lambda>q. FetchOk [\<lparr>tw_text = ''Buy now'', tw_author = ''a'', author_followers = 9, retweets = 0, likes = 0\<rparr>])
      2000 ''GME'' (1 / 2)
      \<lparr>twitterDailyReads = Some 200, twitterDailyReadReset = Some 1000,
        twitterConfirmation = Map.empty, fetchLog = []\<rparr>
    = (None, \<lparr>twitterDailyReads = Some 200, twitterDailyReadReset = Some 1000,
        twitterConfirmation = Map.empty, fetchLog = []\<rparr>)
   \<and> canSpendTwitterRead 86401001
        \<lparr>twitterDailyReads = Some 200, twitterDailyReadReset = Some 1000,
          twitterConfirmation = Map.empty, fetchLog = []\<rparr>
      = (True, \<lparr>twitterDailyReads = Some 0, twitterDailyReadReset = Some 86401001,
          twitterConfirmation = Map.empty, fetchLog = []\<rparr>)
   \<and> twitterDailyReads (snd (gatherTwitterConfirmation (Some ''token'')
      (\<lambda>q. FetchOk [\<lparr>tw_text = ''Buy now'', tw_author = ''a'', author_followers = 9, retweets = 0, likes = 0\<rparr>])
      86401001 ''GME'' (1 / 2)
      \<lparr>twitterDailyReads = Some 200, twitterDailyReadReset = Some 1000,
        twitterConfirmation = Map.empty, fetchLog = []\<rparr>)) = Some 1"
proof -
  let ?st = "\<lparr>twitterDailyReads = Some 200, twitterDailyReadReset = Some 1000,
        twitterConfirmation = Map.empty, fetchLog = []\<rparr>"
  let ?fetch = "\<lambda>q::string. FetchOk [\<lparr>tw_text = ''Buy now'', tw_author = ''a'', author_followers = 9, retweets = 0, likes = 0\<rparr>]"
  have a: "gatherTwitterConfirmation (Some ''token'') ?fetch 2000 ''GME'' (1 / 2) ?st = (None, ?st)"
    using twitter_budget_gate [of ?st 200 1000 2000 "Some ''token''" ?fetch "''GME''" "1 / 2"]
    by (simp add: MAX_DAILY_READS_def ONE_DAY_MS_def)
  have b: "canSpendTwitterRead 86401001 ?st
      = (True, \<lparr>twitterDailyReads = Some 0, twitterDailyReadReset = Some 86401001,
          twitterConfirmation = Map.empty, fetchLog = []\<rparr>)"
    using twitter_budget_gate [of ?st 200 1000 86401001 "Some ''token''" ?fetch "''GME''" "1 / 2"]
    by (simp add: ONE_DAY_MS_def)
  have c: "twitterDailyReads (snd (gatherTwitterConfirmation (Some ''token'') ?fetch 86401001 ''GME'' (1 / 2) ?st)) = Some 1"
    by (simp add: gatherTwitterConfirmation_def twitterSearchRecent_def canSpendTwitterRead_def
        spendTwitterRead_def isTwitterEnabled_def MAX_DAILY_READS_def ONE_DAY_MS_def
        MIN_SENTIMENT_FOR_CONFIRMATION_def Let_def)
  from a b c show ?thesis by simp
qed

subsection \<open>The Twitter confirmation\<close>

lemma log10_100000: "log 10 100000 = (5::real)"
  using log_pow_cancel [of 10 5] by simp

lemma canSpendTwitterRead_cache:
  "twitterConfirmation (snd (canSpendTwitterRead now st)) = twitterConfirmation st"
  by (simp add: canSpendTwitterRead_def Let_def)

lemma twitterSearchRecent_tweets:
  assumes "twitterSearchRecent token fetch now query st = (tweets, st')" "tweets \<noteq> []"
  shows "fetch query = FetchOk tweets"
  using assms
  by (cases "fetch query")
     (auto simp: twitterSearchRecent_def Let_def split: if_splits prod.splits)

lemma confirmationOf_confirms:
  assumes "existingSentiment \<noteq> 0"
  shows "confirms_existing (confirmationOf now sy existingSentiment tweets) =
     ((tc_sentiment (confirmationOf now sy existingSentiment tweets) > 2 / 10 \<and> existingSentiment > 0)
      \<or> (tc_sentiment (confirmationOf now sy existingSentiment tweets) < - (2 / 10) \<and> existingSentiment < 0))"
  using assms by (auto simp: confirmationOf_def Let_def)

text \<open>
  Claim C8, as stated, makes \<open>confirms_existing\<close> the agreement of the two signs. The
  code asks the confirmation sentiment to pass 0.2 in absolute value: with an existing
  sentiment of 0.5 and a confirmation sentiment of 1/6, both positive, the lookup
  answers \<open>confirms_existing = false\<close>.
\<close>

theorem confirms_existing_same_sign_counterexample:
  "map_option (\<lambda>r. (tc_sentiment r, confirms_existing r, spec_confirmsExisting (tc_sentiment r) (1 / 2)))
     (fst (gatherTwitterConfirmation (Some ''token'')
        (\<lambda>q. FetchOk
           [\<lparr>tw_text = ''Buy now'', tw_author = ''a'', author_followers = 9, retweets = 0, likes = 0\<rparr>,
            \<lparr>tw_text = ''flow alert'', tw_author = ''b'', author_followers = 99999, retweets = 0, likes = 0\<rparr>])
        0 ''GME'' (1 / 2)
        \<lparr>twitterDailyReads = None, twitterDailyReadReset = None,
          twitterConfirmation = Map.empty, fetchLog = []\<rparr>))
   = Some (1 / 6, False, True)"
  by (simp add: gatherTwitterConfirmation_def twitterSearchRecent_def canSpendTwitterRead_def
      spendTwitterRead_def isTwitterEnabled_def MAX_DAILY_READS_def ONE_DAY_MS_def
      MIN_SENTIMENT_FOR_CONFIRMATION_def CACHE_TTL_MS_def confirmationOf_def twitterSentimentOf_def
      tweetWeight_def tweetPolarity_def bullWords_def bearWords_def text_defs
      spec_confirmsExisting_def log10_100000 Let_def)

text \<open>
  Claim C8, amended: for every confirmation result that the lookup computes (one not
  served from the per-symbol cache), the existing sentiment has absolute value at least
  0.3, the result is computed from the tweets the search returned, and
  \<open>confirms_existing\<close> is true if and only if the confirmation sentiment is above 0.2
  and the existing sentiment is positive, or the confirmation sentiment is below -0.2
  and the existing sentiment is negative.
\<close>

theorem confirms_existing_dead_band:
  assumes g: "gatherTwitterConfirmation token fetch now sy existingSentiment st = (Some result, st')"
    and fresh: "\<forall>cached. twitterConfirmation st sy = Some cached
                  \<longrightarrow> \<not> now - tc_timestamp cached < CACHE_TTL_MS"
  shows "\<bar>existingSentiment\<bar> \<ge> MIN_SENTIMENT_FOR_CONFIRMATION
    \<and> (\<exists>tweets. fetch (confirmationQuery sy) = FetchOk tweets \<and> tweets \<noteq> []
          \<and> result = confirmationOf now sy existingSentiment tweets)
    \<and> confirms_existing result =
         ((tc_sentiment result > 2 / 10 \<and> existingSentiment > 0)
          \<or> (tc_sentiment result < - (2 / 10) \<and> existingSentiment < 0))"
proof -
  obtain ok st1 where c: "canSpendTwitterRead now st = (ok, st1)"
    by (metis prod.exhaust)
  have cache: "twitterConfirmation st1 = twitterConfirmation st"
    using canSpendTwitterRead_cache [of now st] c by simp
  have nocache: "(case twitterConfirmation st1 sy of None \<Rightarrow> None
       | Some cached \<Rightarrow> if now - tc_timestamp cached < CACHE_TTL_MS then Some cached else None) = None"
    using fresh cache by (auto split: option.splits)
  obtain tweets st2 where s: "twitterSearchRecent token fetch now (confirmationQuery sy) st1 = (tweets, st2)"
    by (metis prod.exhaust)
  from g c nocache s have
    big: "\<bar>existingSentiment\<bar> \<ge> MIN_SENTIMENT_FOR_CONFIRMATION"
    and ne: "tweets \<noteq> []"
    and res: "result = confirmationOf now sy existingSentiment tweets"
    by (auto simp: gatherTwitterConfirmation_def Let_def split: if_splits)
  have f: "fetch (confirmationQuery sy) = FetchOk tweets"
    using s ne by (rule twitterSearchRecent_tweets)
  have "existingSentiment \<noteq> 0"
    using big by (auto simp: MIN_SENTIMENT_FOR_CONFIRMATION_def)
  then have "confirms_existing result =
         ((tc_sentiment result > 2 / 10 \<and> existingSentiment > 0)
          \<or> (tc_sentiment result < - (2 / 10) \<and> existingSentiment < 0))"
    unfolding res by (rule confirmationOf_confirms)
  with big f ne res show ?thesis by blast
qed

text \<open>The amended claim at a lookup whose confirmation sentiment is 5/6.\<close>

theorem confirms_existing_dead_band_witness:
  "fst (gatherTwitterConfirmation (Some ''token'')
        (\<lambda>q. FetchOk
           [\<lparr>tw_text = ''Buy now'', tw_author = ''a'', author_followers = 99999, retweets = 0, likes = 0\<rparr>,
            \<lparr>tw_text = ''flow alert'', tw_author = ''b'', author_followers = 9, retweets = 0, likes = 0\<rparr>])
        0 ''GME'' (1 / 2)
        \<lparr>twitterDailyReads = None, twitterDailyReadReset = None,
          twitterConfirmation = Map.empty, fetchLog = []\<rparr>)
   = Some \<lparr>tc_symbol = ''GME'', tweet_count = 2, tc_sentiment = 5 / 6, confirms_existing = True,
            highlights = [\<lparr>hl_author = ''a'', hl_text = ''Buy now'', hl_likes = 0\<rparr>], tc_timestamp = 0\<rparr>
   \<and> (5 / 6 > (2 / 10 :: real) \<and> (1 / 2 :: real) > 0)"
proof -
  let ?fetch = "\<lambda>q::string. FetchOk
           [\<lparr>tw_text = ''Buy now'', tw_author = ''a'', author_followers = 99999, retweets = 0, likes = 0\<rparr>,
            \<lparr>tw_text = ''flow alert'', tw_author = ''b'', author_followers = 9, retweets = 0, likes = 0\<rparr>]"
  let ?st = "\<lparr>twitterDailyReads = None, twitterDailyReadReset = None,
          twitterConfirmation = Map.empty, fetchLog = []\<rparr>"
  let ?res = "\<lparr>tc_symbol = ''GME'', tweet_count = 2, tc_sentiment = 5 / 6, confirms_existing = True,
            highlights = [\<lparr>hl_author = ''a'', hl_text = ''Buy now'', hl_likes = 0\<rparr>], tc_timestamp = 0\<rparr>"
  let ?g = "gatherTwitterConfirmation (Some ''token'') ?fetch 0 ''GME'' (1 / 2) ?st"
  have e: "fst ?g = Some ?res"
    by (simp add: gatherTwitterConfirmation_def twitterSearchRecent_def canSpendTwitterRead_def
      spendTwitterRead_def isTwitterEnabled_def MAX_DAILY_READS_def ONE_DAY_MS_def
      MIN_SENTIMENT_FOR_CONFIRMATION_def CACHE_TTL_MS_def confirmationOf_def twitterSentimentOf_def
      tweetWeight_def tweetPolarity_def bullWords_def bearWords_def text_defs
      log10_100000 Let_def)
  then have g: "?g = (Some ?res, snd ?g)"
    by (metis prod.collapse)
  have fresh: "\<forall>cached. twitterConfirmation ?st ''GME'' = Some cached
      \<longrightarrow> \<not> 0 - tc_timestamp cached < CACHE_TTL_MS"
    by simp
  have "confirms_existing ?res =
         ((tc_sentiment ?res > 2 / 10 \<and> (1 / 2 :: real) > 0)
          \<or> (tc_sentiment ?res < - (2 / 10) \<and> (1 / 2 :: real) < 0))"
    by (rule confirms_existing_dead_band [OF g fresh, THEN conjunct2, THEN conjunct2])
  with e show ?thesis by simp
qed

subsection \<open>Keyword sentiment\<close>

lemma countIncluded_filter:
  "countIncluded lower ws = length (filter (str_includes lower) ws)"
  by (induction ws) simp_all

lemma countIncluded_card:
  assumes "distinct ws"
  shows "countIncluded lower ws = card {w \<in> set ws. str_includes lower w}"
proof -
  have "distinct (filter (str_includes lower) ws)"
    using assms by simp
  then have "card (set (filter (str_includes lower) ws)) = length (filter (str_includes lower) ws)"
    by (rule distinct_card)
  then show ?thesis
    by (simp add: countIncluded_filter)
qed

lemma distinct_bullish: "distinct bullish"
  by (simp add: bullish_def)

lemma distinct_bearish: "distinct bearish"
  by (simp add: bearish_def)

lemma ratio_bounds:
  fixes b r :: nat
  assumes "b + r \<noteq> 0"
  shows "- 1 \<le> (real b - real r) / real (b + r)" and "(real b - real r) / real (b + r) \<le> 1"
proof -
  have "0 < b + r" using assms by arith
  then have pos: "0 < real (b + r)" by (simp only: of_nat_0_less_iff)
  have "- real (b + r) \<le> real b - real r" by simp
  then show "- 1 \<le> (real b - real r) / real (b + r)"
    using pos by (simp add: pos_le_divide_eq)
  have "real b - real r \<le> real (b + r)" by simp
  then show "(real b - real r) / real (b + r) \<le> 1"
    using pos by (simp add: pos_divide_le_eq)
qed

text \<open>
  Claim C9, as stated, counts every occurrence of a keyword. The code counts each keyword
  of a list at most once, however often it occurs: on \<open>moon moon puts\<close> the code has
  one bullish and one bearish keyword and answers 0, where two bullish occurrences and
  one bearish occurrence give 1/3.
\<close>

theorem detectSentiment_occurrences_counterexample:
  "detectSentiment ''moon moon puts'' = 0 \<and> spec_keywordSentiment ''moon moon puts'' = 1 / 3"
  by (simp add: detectSentiment_def spec_keywordSentiment_def text_defs bullish_def bearish_def)

text \<open>
  Claim C9, amended: \<open>detectSentiment\<close> answers \<open>(bull - bear) / (bull + bear)\<close>, where
  \<open>bull\<close> and \<open>bear\<close> are the numbers of keywords of the bullish and of the bearish
  list that occur in the text at least once as a case-insensitive substring, and
  exactly 0 when both are zero; the result lies in \<open>[-1, 1]\<close>, and is 1 when only
  bullish keywords occur and -1 when only bearish keywords occur.
\<close>

theorem detectSentiment_keyword_ratio:
  "(let bull = countIncluded (toLowerCase text) bullish;
        bear = countIncluded (toLowerCase text) bearish
    in bull = card {w \<in> set bullish. str_includes (toLowerCase text) w}
       \<and> bear = card {w \<in> set bearish. str_includes (toLowerCase text) w}
       \<and> detectSentiment text =
            (if bull + bear = 0 then 0 else (real bull - real bear) / real (bull + bear))
       \<and> - 1 \<le> detectSentiment text \<and> detectSentiment text \<le> 1
       \<and> (bull = 0 \<and> bear = 0 \<longrightarrow> detectSentiment text = 0)
       \<and> (0 < bull \<and> bear = 0 \<longrightarrow> detectSentiment text = 1)
       \<and> (bull = 0 \<and> 0 < bear \<longrightarrow> detectSentiment text = - 1))"
proof -
  define bull where "bull = countIncluded (toLowerCase text) bullish"
  define bear where "bear = countIncluded (toLowerCase text) bearish"
  have ds: "detectSentiment text =
      (if bull + bear = 0 then 0 else (real bull - real bear) / real (bull + bear))"
    by (simp add: detectSentiment_def bull_def bear_def Let_def)
  have c1: "bull = card {w \<in> set bullish. str_includes (toLowerCase text) w}"
    unfolding bull_def by (rule countIncluded_card [OF distinct_bullish])
  have c2: "bear = card {w \<in> set bearish. str_includes (toLowerCase text) w}"
    unfolding bear_def by (rule countIncluded_card [OF distinct_bearish])
  have lo: "- 1 \<le> detectSentiment text"
    using ratio_bounds(1) [of bull bear] by (simp add: ds)
  have hi: "detectSentiment text \<le> 1"
    using ratio_bounds(2) [of bull bear] by (simp add: ds)
  have z: "bull = 0 \<and> bear = 0 \<longrightarrow> detectSentiment text = 0"
    by (simp add: ds)
  have p: "0 < bull \<and> bear = 0 \<longrightarrow> detectSentiment text = 1"
    by (simp add: ds)
  have n: "bull = 0 \<and> 0 < bear \<longrightarrow> detectSentiment text = - 1"
    by (simp add: ds)
  show ?thesis
    unfolding Let_def bull_def [symmetric] bear_def [symmetric]
    using ds c1 c2 lo hi z p n by blast
qed

text \<open>The amended claim at three texts: bullish only, bearish only, no keyword.\<close>

theorem detectSentiment_keyword_ratio_witness:
  "countIncluded (toLowerCase ''TO THE MOON'') bullish = 1
   \<and> countIncluded (toLowerCase ''TO THE MOON'') bearish = 0
   \<and> detectSentiment ''TO THE MOON'' = 1
   \<and> countIncluded (toLowerCase ''Puts on it'') bullish = 0
   \<and> countIncluded (toLowerCase ''Puts on it'') bearish = 1
   \<and> detectSentiment ''Puts on it'' = - 1
   \<and> detectSentiment ''no keyword here'' = 0"
proof -
  have b1: "countIncluded (toLowerCase ''TO THE MOON'') bullish = 1"
    and r1: "countIncluded (toLowerCase ''TO THE MOON'') bearish = 0"
    by (simp_all add: text_defs bullish_def bearish_def)
  have b2: "countIncluded (toLowerCase ''Puts on it'') bullish = 0"
    and r2: "countIncluded (toLowerCase ''Puts on it'') bearish = 1"
    by (simp_all add: text_defs bullish_def bearish_def)
  have b3: "countIncluded (toLowerCase ''no keyword here'') bullish = 0"
    and r3: "countIncluded (toLowerCase ''no keyword here'') bearish = 0"
    by (simp_all add: text_defs bullish_def bearish_def)
  show ?thesis
    using detectSentiment_keyword_ratio [of "''TO THE MOON''"]
      detectSentiment_keyword_ratio [of "''Puts on it''"]
      detectSentiment_keyword_ratio [of "''no keyword here''"]
    unfolding Let_def b1 r1 b2 r2 b3 r3 by simp
qed

subsection \<open>Ticker extraction\<close>

lemmas regex_defs = regexMatchAt_def matchCashtag_def matchBareToken_def wordBoundary_def
  greedyCounts_def isAsciiLetter_def isWordChar_def isSpaceChar_def contextLookahead_def
  contextKeywords_def setAdd_def

lemma blacklist_examples:
  "''AMC'' \<notin> set TICKER_BLACKLIST" "''GME'' \<notin> set TICKER_BLACKLIST"
  "''THE'' \<in> set TICKER_BLACKLIST"
  by (simp_all add: TICKER_BLACKLIST_def)

lemma take_within_run:
  "n \<le> length (takeWhile P xs) \<Longrightarrow> \<forall>x\<in>set (take n xs). P x"
  by (induction xs arbitrary: n) (auto simp: take_Cons split: nat.splits if_splits)

lemma greedyCounts_bound:
  "n \<in> set (greedyCounts cls lo hi s) \<Longrightarrow> n \<le> length (takeWhile cls s)"
  by (auto simp: greedyCounts_def)

lemma matchCashtag_letters:
  assumes "matchCashtag s = Some (grp, len)"
  shows "\<forall>c\<in>set grp. isAsciiLetter c"
proof (cases s)
  case Nil
  with assms show ?thesis by (simp add: matchCashtag_def)
next
  case (Cons c r)
  with assms obtain n where
    n: "find (\<lambda>n. wordBoundary (Some (r ! (n - 1))) (drop n r)) (greedyCounts isAsciiLetter 1 5 r) = Some n"
    and grp: "grp = take n r"
    by (auto simp: matchCashtag_def split: if_splits option.splits)
  from n have "n \<in> set (greedyCounts isAsciiLetter 1 5 r)"
    by (auto simp: find_Some_iff)
  then have "n \<le> length (takeWhile isAsciiLetter r)"
    by (rule greedyCounts_bound)
  then show ?thesis
    unfolding grp by (rule take_within_run)
qed

lemma matchBareToken_letters:
  assumes "matchBareToken prev s = Some (grp, len)"
  shows "\<forall>c\<in>set grp. isAsciiLetter c"
proof -
  from assms obtain n where
    n: "find (\<lambda>n. wordBoundary (Some (s ! (n - 1))) (drop n s) \<and> contextLookahead (drop n s))
          (greedyCounts isAsciiLetter 2 5 s) = Some n"
    and grp: "grp = take n s"
    by (auto simp: matchBareToken_def split: if_splits option.splits)
  from n have "n \<in> set (greedyCounts isAsciiLetter 2 5 s)"
    by (auto simp: find_Some_iff)
  then have "n \<le> length (takeWhile isAsciiLetter s)"
    by (rule greedyCounts_bound)
  then show ?thesis
    unfolding grp by (rule take_within_run)
qed

lemma regexMatchAt_letters:
  "regexMatchAt prev s = Some (grp, len) \<Longrightarrow> \<forall>c\<in>set grp. isAsciiLetter c"
  by (auto simp: regexMatchAt_def split: option.splits
      dest: matchCashtag_letters matchBareToken_letters)

lemma setAdd_distinct: "distinct xs \<Longrightarrow> distinct (setAdd x xs)"
  by (simp add: setAdd_def)

lemma set_setAdd: "set (setAdd x xs) = insert x (set xs)"
  by (auto simp: setAdd_def)

lemma extractLoop_invariant:
  "distinct matches \<Longrightarrow> \<forall>t\<in>set matches. tickerOk customSet t \<Longrightarrow>
   distinct (extractLoop customSet prev s matches)
   \<and> (\<forall>t\<in>set (extractLoop customSet prev s matches). tickerOk customSet t)"
proof (induction customSet prev s matches rule: extractLoop.induct)
  case (1 customSet prev matches)
  then show ?case by simp
next
  case (2 customSet prev c cs matches)
  show ?case
  proof (cases "regexMatchAt prev (c # cs)")
    case None
    with 2 show ?thesis by simp
  next
    case (Some m)
    obtain grp len where m: "m = (grp, len)" by (cases m)
    have letters: "\<forall>c\<in>set grp. isAsciiLetter c"
      using Some m by (auto dest: regexMatchAt_letters)
    then have upper: "\<forall>c\<in>set (toUpperCase grp). c \<in> set upperLetters"
      by (simp add: toUpperCase_def toUpperChar_letter)
    let ?ticker = "toUpperCase grp"
    let ?matches' = "if 2 \<le> length ?ticker \<and> length ?ticker \<le> 5
        \<and> ?ticker \<notin> set TICKER_BLACKLIST \<and> ?ticker \<notin> set customSet
      then setAdd ?ticker matches else matches"
    have d: "distinct ?matches'"
      using "2.prems"(1) by (simp add: setAdd_distinct)
    have ok: "\<forall>t\<in>set ?matches'. tickerOk customSet t"
      using "2.prems"(2) upper by (auto simp: set_setAdd tickerOk_def)
    have "distinct (extractLoop customSet (Some (last (take len (c # cs)))) (drop (len - 1) cs) ?matches')
       \<and> (\<forall>t\<in>set (extractLoop customSet (Some (last (take len (c # cs)))) (drop (len - 1) cs) ?matches').
             tickerOk customSet t)"
      using "2.IH"(2) [OF Some m [symmetric] refl d ok] .
    then show ?thesis
      using Some m by (simp add: Let_def)
  qed
qed

text \<open>
  Claim C10: the extractor is case-insensitive in both patterns: \<open>buy amc calls\<close>
  yields \<open>AMC\<close> and \<open>$gme to the moon\<close> yields \<open>GME\<close>; and every ticker it returns
  consists of upper-case letters, occurs once in the result, has 2 to 5 characters, and
  is in neither the static blacklist nor the caller's blacklist (as given, and
  upper-cased).
\<close>

theorem extractTickers_case_insensitive:
  "extractTickers ''buy amc calls'' [] = [''AMC'']
   \<and> extractTickers ''$gme to the moon'' [] = [''GME'']
   \<and> distinct (extractTickers text customBlacklist)
   \<and> (\<forall>t\<in>set (extractTickers text customBlacklist).
         (\<forall>c\<in>set t. c \<in> set upperLetters) \<and> toUpperCase t = t
         \<and> 2 \<le> length t \<and> length t \<le> 5
         \<and> t \<notin> set TICKER_BLACKLIST
         \<and> t \<notin> set customBlacklist \<and> t \<notin> set (map toUpperCase customBlacklist))"
proof -
  have e1: "extractTickers ''buy amc calls'' [] = [''AMC'']"
    by (simp add: extractTickers_def regex_defs text_defs blacklist_examples)
  have e2: "extractTickers ''$gme to the moon'' [] = [''GME'']"
    by (simp add: extractTickers_def regex_defs text_defs blacklist_examples)
  have inv: "distinct (extractTickers text customBlacklist)
      \<and> (\<forall>t\<in>set (extractTickers text customBlacklist). tickerOk (map toUpperCase customBlacklist) t)"
    unfolding extractTickers_def by (rule extractLoop_invariant) simp_all
  have "\<forall>t\<in>set (extractTickers text customBlacklist).
         (\<forall>c\<in>set t. c \<in> set upperLetters) \<and> toUpperCase t = t
         \<and> 2 \<le> length t \<and> length t \<le> 5
         \<and> t \<notin> set TICKER_BLACKLIST
         \<and> t \<notin> set customBlacklist \<and> t \<notin> set (map toUpperCase customBlacklist)"
  proof
    fix t assume "t \<in> set (extractTickers text customBlacklist)"
    with inv have ok: "tickerOk (map toUpperCase customBlacklist) t" by blast
    then have up: "toUpperCase t = t"
      by (simp add: tickerOk_def toUpperCase_upper)
    have "t \<notin> set customBlacklist"
    proof
      assume "t \<in> set customBlacklist"
      then have "toUpperCase t \<in> set (map toUpperCase customBlacklist)" by simp
      with up ok show False by (simp add: tickerOk_def)
    qed
    with ok up show "(\<forall>c\<in>set t. c \<in> set upperLetters) \<and> toUpperCase t = t
         \<and> 2 \<le> length t \<and> length t \<le> 5
         \<and> t \<notin> set TICKER_BLACKLIST
         \<and> t \<notin> set customBlacklist \<and> t \<notin> set (map toUpperCase customBlacklist)"
      by (simp add: tickerOk_def)
  qed
  with e1 e2 inv show ?thesis by blast
qed

text \<open>
  The claim at a text with an upper-case cashtag and a lower-case token that the
  caller's blacklist excludes.
\<close>

theorem extractTickers_case_insensitive_witness:
  "extractTickers ''$GME calls, amc puts'' [''amc''] = [''GME'']
   \<and> distinct [''GME''] \<and> toUpperCase ''GME'' = ''GME'' \<and> length ''GME'' = 3
   \<and> ''GME'' \<notin> set TICKER_BLACKLIST \<and> ''GME'' \<notin> set [''amc'']"
proof -
  have e: "extractTickers ''$GME calls, amc puts'' [''amc''] = [''GME'']"
    by (simp add: extractTickers_def regex_defs text_defs blacklist_examples)
  show ?thesis
    using extractTickers_case_insensitive
      [of "''$GME calls, amc puts''" "[''amc'']"]
    unfolding e by simp
qed

subsection \<open>Exit selection\<close>

lemmas example_defs = exampleConfig_def exampleEntry_def exampleContext_def stockPosition_def
  optionNoEntryPrice_def optionUp25_def optionUp50_def optionDown60_def optionsOffContext_def

lemma analyzeStaleness_not_None:
  "analyzeStaleness cfg now currentPrice currentSocialVolume entryOpt \<noteq> None"
  using analyzeStaleness_total [of cfg now currentPrice currentSocialVolume entryOpt] by auto

text \<open>The loop pushes, position by position, what \<open>exitDecision\<close> decides.\<close>

lemma exitLoop_map_filter:
  "fst (exitLoop ctx now positions (exits, stalenessState))
     = exits @ List.map_filter (exitDecision ctx now) positions"
proof (induction positions arbitrary: exits stalenessState)
  case Nil
  then show ?case by (simp add: map_filter_simps)
next
  case (Cons pos rest)
  show ?case
  proof (cases "asset_class pos = ''us_option''")
    case True
    then show ?thesis
      by (cases "checkOptionsExit pos (config ctx)")
         (simp_all add: Cons.IH exitDecision_def map_filter_simps)
  next
    case False
    note stock = False
    show ?thesis
    proof (cases "jsGe (costBasisPnlPct pos) (take_profit_pct (config ctx))")
      case True
      with stock show ?thesis
        by (simp add: Cons.IH exitDecision_def map_filter_simps Let_def)
    next
      case False
      note notp = False
      show ?thesis
      proof (cases "jsLe (costBasisPnlPct pos) (- stop_loss_pct (config ctx))")
        case True
        with stock notp show ?thesis
          by (simp add: Cons.IH exitDecision_def map_filter_simps Let_def)
      next
        case False
        note nosl = False
        show ?thesis
        proof (cases "stale_position_enabled (config ctx)")
          case False
          with stock notp nosl show ?thesis
            by (simp add: Cons.IH exitDecision_def map_filter_simps Let_def)
        next
          case True
          obtain res where res: "analyzeStaleness (config ctx) now (current_price pos)
                   (case socialSnapshotCache ctx (pos_symbol pos) of None \<Rightarrow> 0 | Some v \<Rightarrow> v)
                   (positionEntries ctx (pos_symbol pos)) = Some res"
            using analyzeStaleness_not_None by blast
          show ?thesis
            using stock notp nosl True res
            by (cases "isStale res")
               (simp_all add: Cons.IH exitDecision_def map_filter_simps Let_def)
        qed
      qed
    qed
  qed
qed

lemma selectExits_map_filter:
  "fst (selectExits ctx now positions stalenessState)
     = List.map_filter (exitDecision ctx now) positions"
  by (simp add: selectExits_def exitLoop_map_filter)

lemma set_map_filter:
  "set (List.map_filter f xs) = {y. \<exists>x\<in>set xs. f x = Some y}"
  by (induction xs) (auto simp: map_filter_simps split: option.splits)

lemma length_map_filter_le: "length (List.map_filter f xs) \<le> length xs"
  by (induction xs) (auto simp: map_filter_simps split: option.splits)


text \<open>An options instrument is judged by the options rule, and by nothing else.\<close>

lemma exitDecision_option:
  assumes "asset_class pos = ''us_option''"
  shows "exitDecision ctx now pos =
     (if \<not> options_enabled (config ctx) then None
      else if optionsPnlPct pos \<le> - options_stop_loss_pct (config ctx)
      then Some \<lparr>sell_symbol = pos_symbol pos, sell_reason = OptionsStopLoss (optionsPnlPct pos)\<rparr>
      else if optionsPnlPct pos \<ge> options_take_profit_pct (config ctx)
      then Some \<lparr>sell_symbol = pos_symbol pos, sell_reason = OptionsTakeProfit (optionsPnlPct pos)\<rparr>
      else None)"
  using assms by (simp add: exitDecision_def checkOptionsExit_def Let_def)

lemma selectExits_single:
  "fst (selectExits ctx now [pos] stalenessState)
     = (case exitDecision ctx now pos of None \<Rightarrow> [] | Some c \<Rightarrow> [c])"
  by (simp add: selectExits_map_filter map_filter_simps split: option.splits)

lemma selectExits_member:
  "pos \<in> set positions \<Longrightarrow> exitDecision ctx now pos = Some c
     \<Longrightarrow> c \<in> set (fst (selectExits ctx now positions stalenessState))"
  by (auto simp: selectExits_map_filter set_map_filter)

lemma exitDecision_sound:
  assumes "exitDecision ctx now pos = Some c"
  shows "sell_symbol c = pos_symbol pos
    \<and> (case sell_reason c of
         TakeProfit p \<Rightarrow> asset_class pos \<noteq> ''us_option'' \<and> p = costBasisPnlPct pos
                          \<and> jsGe p (take_profit_pct (config ctx))
       | StopLoss p \<Rightarrow> asset_class pos \<noteq> ''us_option'' \<and> p = costBasisPnlPct pos
                        \<and> jsLe p (- stop_loss_pct (config ctx))
       | Stale sr \<Rightarrow> asset_class pos \<noteq> ''us_option''
       | OptionsStopLoss q \<Rightarrow> asset_class pos = ''us_option'' \<and> options_enabled (config ctx)
                              \<and> q = optionsPnlPct pos \<and> q \<le> - options_stop_loss_pct (config ctx)
       | OptionsTakeProfit q \<Rightarrow> asset_class pos = ''us_option'' \<and> options_enabled (config ctx)
                                \<and> q = optionsPnlPct pos \<and> q \<ge> options_take_profit_pct (config ctx)
                                \<and> \<not> q \<le> - options_stop_loss_pct (config ctx))"
proof (cases "asset_class pos = ''us_option''")
  case True
  with assms show ?thesis
    by (auto simp: exitDecision_def checkOptionsExit_def Let_def split: if_splits)
next
  case False
  with assms show ?thesis
    by (auto simp: exitDecision_def split: if_splits option.splits)
qed

text \<open>
  Claim C1, as stated, has the cost-basis formula used for every position, options
  instruments included. For an options instrument the code compares the price-based
  percentage of \<open>checkOptionsExit\<close> instead: an option whose average entry price is
  missing has a cost-basis P&L of 50%, at or above both take-profit thresholds, and a
  price-based P&L of 0%, and is not sold.
\<close>

theorem options_pnl_not_cost_basis_counterexample:
  "asset_class optionNoEntryPrice = ''us_option''
   \<and> costBasisPnlPct optionNoEntryPrice = Fin 50
   \<and> jsGe (costBasisPnlPct optionNoEntryPrice) (take_profit_pct (config exampleContext))
   \<and> jsGe (costBasisPnlPct optionNoEntryPrice) (options_take_profit_pct (config exampleContext))
   \<and> optionsPnlPct optionNoEntryPrice = 0
   \<and> fst (selectExits exampleContext 0 [optionNoEntryPrice] Map.empty) = []"
  by (simp add: example_defs selectExits_def checkOptionsExit_def optionsPnlPct_def
      costBasisPnlPct_def jsDiv_def Let_def)

text \<open>
  Claim C1, amended: for every held position that is not an options instrument, the
  P&L percentage compared against the take-profit and stop-loss thresholds is
  \<open>unrealized_pl / (market_value - unrealized_pl) * 100\<close>: a take-profit or stop-loss
  candidate carries that percentage and passed that comparison, and a position whose
  percentage passes a comparison gets the candidate. For an options instrument the
  percentage is \<open>(current_price - avg_entry_price) / avg_entry_price * 100\<close> (0 without a
  positive average entry price), compared against the options thresholds and only when
  options are enabled: at or below minus the options stop loss the instrument is sold
  with an options stop loss, otherwise at or above the options take profit it is sold
  with an options take profit, and otherwise, or with options disabled, it is not sold.
\<close>

theorem exit_pnl_percentages:
  "(\<forall>c\<in>set (fst (selectExits ctx now positions stalenessState)).
      \<exists>pos\<in>set positions.
        sell_symbol c = pos_symbol pos
        \<and> (case sell_reason c of
             TakeProfit p \<Rightarrow> asset_class pos \<noteq> ''us_option'' \<and> p = costBasisPnlPct pos
                              \<and> jsGe p (take_profit_pct (config ctx))
           | StopLoss p \<Rightarrow> asset_class pos \<noteq> ''us_option'' \<and> p = costBasisPnlPct pos
                            \<and> jsLe p (- stop_loss_pct (config ctx))
           | Stale sr \<Rightarrow> asset_class pos \<noteq> ''us_option''
           | OptionsStopLoss q \<Rightarrow> asset_class pos = ''us_option'' \<and> options_enabled (config ctx)
                                  \<and> q = optionsPnlPct pos \<and> q \<le> - options_stop_loss_pct (config ctx)
           | OptionsTakeProfit q \<Rightarrow> asset_class pos = ''us_option'' \<and> options_enabled (config ctx)
                                    \<and> q = optionsPnlPct pos \<and> q \<ge> options_take_profit_pct (config ctx)
                                    \<and> \<not> q \<le> - options_stop_loss_pct (config ctx)))
   \<and> (\<forall>pos\<in>set positions.
        asset_class pos \<noteq> ''us_option''
        \<longrightarrow> (jsGe (costBasisPnlPct pos) (take_profit_pct (config ctx))
              \<longrightarrow> \<lparr>sell_symbol = pos_symbol pos, sell_reason = TakeProfit (costBasisPnlPct pos)\<rparr>
                    \<in> set (fst (selectExits ctx now positions stalenessState)))
          \<and> (\<not> jsGe (costBasisPnlPct pos) (take_profit_pct (config ctx))
                \<and> jsLe (costBasisPnlPct pos) (- stop_loss_pct (config ctx))
              \<longrightarrow> \<lparr>sell_symbol = pos_symbol pos, sell_reason = StopLoss (costBasisPnlPct pos)\<rparr>
                    \<in> set (fst (selectExits ctx now positions stalenessState))))
   \<and> (\<forall>pos\<in>set positions.
        asset_class pos = ''us_option'' \<and> options_enabled (config ctx)
        \<longrightarrow> (optionsPnlPct pos \<le> - options_stop_loss_pct (config ctx)
              \<longrightarrow> \<lparr>sell_symbol = pos_symbol pos, sell_reason = OptionsStopLoss (optionsPnlPct pos)\<rparr>
                    \<in> set (fst (selectExits ctx now positions stalenessState)))
          \<and> (\<not> optionsPnlPct pos \<le> - options_stop_loss_pct (config ctx)
                \<and> optionsPnlPct pos \<ge> options_take_profit_pct (config ctx)
              \<longrightarrow> \<lparr>sell_symbol = pos_symbol pos, sell_reason = OptionsTakeProfit (optionsPnlPct pos)\<rparr>
                    \<in> set (fst (selectExits ctx now positions stalenessState))))
   \<and> (\<forall>pos. asset_class pos = ''us_option''
        \<longrightarrow> fst (selectExits ctx now [pos] stalenessState)
              = (if \<not> options_enabled (config ctx) then []
                 else if optionsPnlPct pos \<le> - options_stop_loss_pct (config ctx)
                 then [\<lparr>sell_symbol = pos_symbol pos, sell_reason = OptionsStopLoss (optionsPnlPct pos)\<rparr>]
                 else if optionsPnlPct pos \<ge> options_take_profit_pct (config ctx)
                 then [\<lparr>sell_symbol = pos_symbol pos, sell_reason = OptionsTakeProfit (optionsPnlPct pos)\<rparr>]
                 else []))
   \<and> (\<forall>pos. market_value pos \<noteq> unrealized_pl pos
        \<longrightarrow> costBasisPnlPct pos
              = Fin (unrealized_pl pos / (market_value pos - unrealized_pl pos) * 100))
   \<and> (\<forall>pos. optionsPnlPct pos =
        (if avg_entry_price pos > 0
         then (current_price pos - avg_entry_price pos) / avg_entry_price pos * 100
         else 0))"
proof (intro conjI ballI allI impI)
  fix c assume "c \<in> set (fst (selectExits ctx now positions stalenessState))"
  then obtain pos where pos: "pos \<in> set positions" "exitDecision ctx now pos = Some c"
    by (auto simp: selectExits_map_filter set_map_filter)
  show "\<exists>pos\<in>set positions.
        sell_symbol c = pos_symbol pos
        \<and> (case sell_reason c of
             TakeProfit p \<Rightarrow> asset_class pos \<noteq> ''us_option'' \<and> p = costBasisPnlPct pos
                              \<and> jsGe p (take_profit_pct (config ctx))
           | StopLoss p \<Rightarrow> asset_class pos \<noteq> ''us_option'' \<and> p = costBasisPnlPct pos
                            \<and> jsLe p (- stop_loss_pct (config ctx))
           | Stale sr \<Rightarrow> asset_class pos \<noteq> ''us_option''
           | OptionsStopLoss q \<Rightarrow> asset_class pos = ''us_option'' \<and> options_enabled (config ctx)
                                  \<and> q = optionsPnlPct pos \<and> q \<le> - options_stop_loss_pct (config ctx)
           | OptionsTakeProfit q \<Rightarrow> asset_class pos = ''us_option'' \<and> options_enabled (config ctx)
                                    \<and> q = optionsPnlPct pos \<and> q \<ge> options_take_profit_pct (config ctx)
                                    \<and> \<not> q \<le> - options_stop_loss_pct (config ctx))"
  proof (rule bexI)
    show "pos \<in> set positions" by (rule pos(1))
    show "sell_symbol c = pos_symbol pos
        \<and> (case sell_reason c of
             TakeProfit p \<Rightarrow> asset_class pos \<noteq> ''us_option'' \<and> p = costBasisPnlPct pos
                              \<and> jsGe p (take_profit_pct (config ctx))
           | StopLoss p \<Rightarrow> asset_class pos \<noteq> ''us_option'' \<and> p = costBasisPnlPct pos
                            \<and> jsLe p (- stop_loss_pct (config ctx))
           | Stale sr \<Rightarrow> asset_class pos \<noteq> ''us_option''
           | OptionsStopLoss q \<Rightarrow> asset_class pos = ''us_option'' \<and> options_enabled (config ctx)
                                  \<and> q = optionsPnlPct pos \<and> q \<le> - options_stop_loss_pct (config ctx)
           | OptionsTakeProfit q \<Rightarrow> asset_class pos = ''us_option'' \<and> options_enabled (config ctx)
                                    \<and> q = optionsPnlPct pos \<and> q \<ge> options_take_profit_pct (config ctx)
                                    \<and> \<not> q \<le> - options_stop_loss_pct (config ctx))"
      by (rule exitDecision_sound [OF pos(2)])
  qed
next
  fix pos
  assume p: "pos \<in> set positions" "asset_class pos \<noteq> ''us_option''"
    "jsGe (costBasisPnlPct pos) (take_profit_pct (config ctx))"
  then have "exitDecision ctx now pos
      = Some \<lparr>sell_symbol = pos_symbol pos, sell_reason = TakeProfit (costBasisPnlPct pos)\<rparr>"
    by (simp add: exitDecision_def)
  with p(1) show "\<lparr>sell_symbol = pos_symbol pos, sell_reason = TakeProfit (costBasisPnlPct pos)\<rparr>
                    \<in> set (fst (selectExits ctx now positions stalenessState))"
    by (auto simp: selectExits_map_filter set_map_filter)
next
  fix pos
  assume p: "pos \<in> set positions" "asset_class pos \<noteq> ''us_option''"
    "\<not> jsGe (costBasisPnlPct pos) (take_profit_pct (config ctx))
                \<and> jsLe (costBasisPnlPct pos) (- stop_loss_pct (config ctx))"
  then have "exitDecision ctx now pos
      = Some \<lparr>sell_symbol = pos_symbol pos, sell_reason = StopLoss (costBasisPnlPct pos)\<rparr>"
    by (simp add: exitDecision_def)
  with p(1) show "\<lparr>sell_symbol = pos_symbol pos, sell_reason = StopLoss (costBasisPnlPct pos)\<rparr>
                    \<in> set (fst (selectExits ctx now positions stalenessState))"
    by (auto simp: selectExits_map_filter set_map_filter)
next
  fix pos
  assume p: "pos \<in> set positions" "asset_class pos = ''us_option'' \<and> options_enabled (config ctx)"
    "optionsPnlPct pos \<le> - options_stop_loss_pct (config ctx)"
  then have "exitDecision ctx now pos = Some \<lparr>sell_symbol = pos_symbol pos, sell_reason = OptionsStopLoss (optionsPnlPct pos)\<rparr>"
    by (simp add: exitDecision_option)
  with p(1) show "\<lparr>sell_symbol = pos_symbol pos, sell_reason = OptionsStopLoss (optionsPnlPct pos)\<rparr>
                    \<in> set (fst (selectExits ctx now positions stalenessState))"
    by (rule selectExits_member)
next
  fix pos
  assume p: "pos \<in> set positions" "asset_class pos = ''us_option'' \<and> options_enabled (config ctx)"
    "\<not> optionsPnlPct pos \<le> - options_stop_loss_pct (config ctx)
                \<and> optionsPnlPct pos \<ge> options_take_profit_pct (config ctx)"
  then have "exitDecision ctx now pos = Some \<lparr>sell_symbol = pos_symbol pos, sell_reason = OptionsTakeProfit (optionsPnlPct pos)\<rparr>"
    by (simp add: exitDecision_option)
  with p(1) show "\<lparr>sell_symbol = pos_symbol pos, sell_reason = OptionsTakeProfit (optionsPnlPct pos)\<rparr>
                    \<in> set (fst (selectExits ctx now positions stalenessState))"
    by (rule selectExits_member)
next
  fix pos :: Position
  assume "asset_class pos = ''us_option''"
  then show "fst (selectExits ctx now [pos] stalenessState)
              = (if \<not> options_enabled (config ctx) then []
                 else if optionsPnlPct pos \<le> - options_stop_loss_pct (config ctx)
                 then [\<lparr>sell_symbol = pos_symbol pos, sell_reason = OptionsStopLoss (optionsPnlPct pos)\<rparr>]
                 else if optionsPnlPct pos \<ge> options_take_profit_pct (config ctx)
                 then [\<lparr>sell_symbol = pos_symbol pos, sell_reason = OptionsTakeProfit (optionsPnlPct pos)\<rparr>]
                 else [])"
    by (simp add: selectExits_single exitDecision_option)
next
  fix pos :: Position
  assume "market_value pos \<noteq> unrealized_pl pos"
  then show "costBasisPnlPct pos
              = Fin (unrealized_pl pos / (market_value pos - unrealized_pl pos) * 100)"
    by (simp add: costBasisPnlPct_def jsDiv_def)
next
  fix pos :: Position
  show "optionsPnlPct pos =
        (if avg_entry_price pos > 0
         then (current_price pos - avg_entry_price pos) / avg_entry_price pos * 100
         else 0)"
    by (simp add: optionsPnlPct_def Let_def)
qed

text \<open>
  The amended claim at a stock bought at 100 and worth 120, held beside three options:
  the stock is sold with a take profit at 20%, the option up 50% with an options take
  profit, the option down 60% with an options stop loss, and the option up 25% is kept;
  with options disabled the option up 50% is kept too.
\<close>

theorem exit_pnl_percentages_witness:
  "fst (selectExits exampleContext 864000000 [stockPosition, optionUp50, optionDown60, optionUp25] Map.empty)
     = [\<lparr>sell_symbol = ''Y'', sell_reason = TakeProfit (Fin 20)\<rparr>,
        \<lparr>sell_symbol = ''X3'', sell_reason = OptionsTakeProfit 50\<rparr>,
        \<lparr>sell_symbol = ''X4'', sell_reason = OptionsStopLoss (- 60)\<rparr>]
   \<and> costBasisPnlPct stockPosition = Fin (20 / (120 - 20) * 100)
   \<and> optionsPnlPct optionUp50 = 50 \<and> optionsPnlPct optionDown60 = - 60
   \<and> \<lparr>sell_symbol = ''Y'', sell_reason = TakeProfit (Fin 20)\<rparr>
       \<in> set (fst (selectExits exampleContext 864000000
                 [stockPosition, optionUp50, optionDown60, optionUp25] Map.empty))
   \<and> \<lparr>sell_symbol = ''X3'', sell_reason = OptionsTakeProfit 50\<rparr>
       \<in> set (fst (selectExits exampleContext 864000000
                 [stockPosition, optionUp50, optionDown60, optionUp25] Map.empty))
   \<and> \<lparr>sell_symbol = ''X4'', sell_reason = OptionsStopLoss (- 60)\<rparr>
       \<in> set (fst (selectExits exampleContext 864000000
                 [stockPosition, optionUp50, optionDown60, optionUp25] Map.empty))
   \<and> fst (selectExits optionsOffContext 864000000 [optionUp50] Map.empty) = []"
proof -
  let ?ps = "[stockPosition, optionUp50, optionDown60, optionUp25]"
  have c: "costBasisPnlPct stockPosition = Fin 20"
    by (simp add: example_defs costBasisPnlPct_def jsDiv_def)
  have o: "optionsPnlPct optionUp50 = 50" "optionsPnlPct optionDown60 = - 60"
    by (simp_all add: example_defs optionsPnlPct_def Let_def)
  have h: "stockPosition \<in> set ?ps"
    "asset_class stockPosition \<noteq> ''us_option''"
    "jsGe (costBasisPnlPct stockPosition) (take_profit_pct (config exampleContext))"
    "pos_symbol stockPosition = ''Y''"
    unfolding c by (simp_all add: example_defs)
  have h3: "optionUp50 \<in> set ?ps"
    "asset_class optionUp50 = ''us_option'' \<and> options_enabled (config exampleContext)"
    "\<not> optionsPnlPct optionUp50 \<le> - options_stop_loss_pct (config exampleContext)
       \<and> optionsPnlPct optionUp50 \<ge> options_take_profit_pct (config exampleContext)"
    "pos_symbol optionUp50 = ''X3''"
    unfolding o by (simp_all add: example_defs)
  have h4: "optionDown60 \<in> set ?ps"
    "asset_class optionDown60 = ''us_option'' \<and> options_enabled (config exampleContext)"
    "optionsPnlPct optionDown60 \<le> - options_stop_loss_pct (config exampleContext)"
    "pos_symbol optionDown60 = ''X4''"
    unfolding o by (simp_all add: example_defs)
  have off: "asset_class optionUp50 = ''us_option''"
    "\<not> options_enabled (config optionsOffContext)"
    by (simp_all add: example_defs)
  note th = exit_pnl_percentages [of exampleContext 864000000 ?ps Map.empty]
  note th2 = th [THEN conjunct2, THEN conjunct1, THEN bspec, OF h(1), THEN mp, OF h(2),
      THEN conjunct1, THEN mp, OF h(3)]
  note th3 = th [THEN conjunct2, THEN conjunct2, THEN conjunct1, THEN bspec, OF h3(1), THEN mp,
      OF h3(2), THEN conjunct2, THEN mp, OF h3(3)]
  note th4 = th [THEN conjunct2, THEN conjunct2, THEN conjunct1, THEN bspec, OF h4(1), THEN mp,
      OF h4(2), THEN conjunct1, THEN mp, OF h4(3)]
  note th5 = exit_pnl_percentages [of optionsOffContext 864000000 "[optionUp50]" Map.empty,
      THEN conjunct2, THEN conjunct2, THEN conjunct2, THEN conjunct1, THEN spec, THEN mp, OF off(1)]
  have m: "\<lparr>sell_symbol = ''Y'', sell_reason = TakeProfit (Fin 20)\<rparr>
       \<in> set (fst (selectExits exampleContext 864000000 ?ps Map.empty))"
    using th2 unfolding h(4) c .
  have m3: "\<lparr>sell_symbol = ''X3'', sell_reason = OptionsTakeProfit 50\<rparr>
       \<in> set (fst (selectExits exampleContext 864000000 ?ps Map.empty))"
    using th3 unfolding h3(4) o .
  have m4: "\<lparr>sell_symbol = ''X4'', sell_reason = OptionsStopLoss (- 60)\<rparr>
       \<in> set (fst (selectExits exampleContext 864000000 ?ps Map.empty))"
    using th4 unfolding h4(4) o .
  have m5: "fst (selectExits optionsOffContext 864000000 [optionUp50] Map.empty) = []"
    using th5 off(2) by simp
  have e: "fst (selectExits exampleContext 864000000 ?ps Map.empty)
     = [\<lparr>sell_symbol = ''Y'', sell_reason = TakeProfit (Fin 20)\<rparr>,
        \<lparr>sell_symbol = ''X3'', sell_reason = OptionsTakeProfit 50\<rparr>,
        \<lparr>sell_symbol = ''X4'', sell_reason = OptionsStopLoss (- 60)\<rparr>]"
    by (simp add: example_defs selectExits_def checkOptionsExit_def optionsPnlPct_def
      costBasisPnlPct_def jsDiv_def Let_def)
  from e c o m m3 m4 m5 show ?thesis by simp
qed

text \<open>
  Claim C3, as stated, lets an options instrument that the options rule does not match
  go on to the take-profit rule. The code stops at the options rule: an option up 25%,
  below the options take-profit of 50% and above the take-profit of 10%, is not sold,
  where the stated precedence gives a take-profit candidate.
\<close>

theorem option_never_reaches_take_profit_counterexample:
  "asset_class optionUp25 = ''us_option''
   \<and> checkOptionsExit optionUp25 (config exampleContext) = None
   \<and> jsGe (costBasisPnlPct optionUp25) (take_profit_pct (config exampleContext))
   \<and> List.map_filter (spec_exitDecision exampleContext 0) [optionUp25]
       = [\<lparr>sell_symbol = ''X2'', sell_reason = TakeProfit (Fin 25)\<rparr>]
   \<and> fst (selectExits exampleContext 0 [optionUp25] Map.empty) = []"
  by (simp add: example_defs selectExits_def spec_exitDecision_def checkOptionsExit_def
      optionsPnlPct_def costBasisPnlPct_def jsDiv_def map_filter_simps Let_def)

text \<open>
  Claim C3, amended: exit selection emits, in the order of the positions, at most one
  sell candidate per position, decided for that position alone. An options instrument
  is judged by the options-specific rule only: stop loss first, then take profit, and
  no candidate when options are disabled. Any other position
  is judged in strict precedence order: take profit, then stop loss, then staleness
  (only when staleness is enabled), the first matching rule giving the reason; in
  particular a position eligible for take profit yields the take-profit reason only,
  whatever the staleness analysis says.
\<close>

theorem exit_precedence:
  "fst (selectExits ctx now positions stalenessState)
     = List.map_filter (exitDecision ctx now) positions
   \<and> length (fst (selectExits ctx now positions stalenessState)) \<le> length positions
   \<and> (\<forall>pos. asset_class pos = ''us_option''
        \<longrightarrow> exitDecision ctx now pos = checkOptionsExit pos (config ctx))
   \<and> (\<forall>pos. asset_class pos = ''us_option''
        \<longrightarrow> exitDecision ctx now pos
              = (if \<not> options_enabled (config ctx) then None
                 else if optionsPnlPct pos \<le> - options_stop_loss_pct (config ctx)
                 then Some \<lparr>sell_symbol = pos_symbol pos, sell_reason = OptionsStopLoss (optionsPnlPct pos)\<rparr>
                 else if optionsPnlPct pos \<ge> options_take_profit_pct (config ctx)
                 then Some \<lparr>sell_symbol = pos_symbol pos, sell_reason = OptionsTakeProfit (optionsPnlPct pos)\<rparr>
                 else None)
            \<and> fst (selectExits ctx now [pos] stalenessState)
              = (if \<not> options_enabled (config ctx) then []
                 else if optionsPnlPct pos \<le> - options_stop_loss_pct (config ctx)
                 then [\<lparr>sell_symbol = pos_symbol pos, sell_reason = OptionsStopLoss (optionsPnlPct pos)\<rparr>]
                 else if optionsPnlPct pos \<ge> options_take_profit_pct (config ctx)
                 then [\<lparr>sell_symbol = pos_symbol pos, sell_reason = OptionsTakeProfit (optionsPnlPct pos)\<rparr>]
                 else []))
   \<and> (\<forall>pos. asset_class pos \<noteq> ''us_option''
          \<and> jsGe (costBasisPnlPct pos) (take_profit_pct (config ctx))
        \<longrightarrow> exitDecision ctx now pos
              = Some \<lparr>sell_symbol = pos_symbol pos, sell_reason = TakeProfit (costBasisPnlPct pos)\<rparr>
            \<and> fst (selectExits ctx now [pos] stalenessState)
              = [\<lparr>sell_symbol = pos_symbol pos, sell_reason = TakeProfit (costBasisPnlPct pos)\<rparr>])
   \<and> (\<forall>pos. asset_class pos \<noteq> ''us_option''
          \<and> \<not> jsGe (costBasisPnlPct pos) (take_profit_pct (config ctx))
          \<and> jsLe (costBasisPnlPct pos) (- stop_loss_pct (config ctx))
        \<longrightarrow> exitDecision ctx now pos
              = Some \<lparr>sell_symbol = pos_symbol pos, sell_reason = StopLoss (costBasisPnlPct pos)\<rparr>)
   \<and> (\<forall>pos. asset_class pos \<noteq> ''us_option''
          \<and> \<not> jsGe (costBasisPnlPct pos) (take_profit_pct (config ctx))
          \<and> \<not> jsLe (costBasisPnlPct pos) (- stop_loss_pct (config ctx))
        \<longrightarrow> (\<exists>res. analyzeStaleness (config ctx) now (current_price pos)
                      (case socialSnapshotCache ctx (pos_symbol pos) of None \<Rightarrow> 0 | Some v \<Rightarrow> v)
                      (positionEntries ctx (pos_symbol pos)) = Some res
                  \<and> exitDecision ctx now pos
                    = (if stale_position_enabled (config ctx) \<and> isStale res
                       then Some \<lparr>sell_symbol = pos_symbol pos, sell_reason = Stale (stale_reason res)\<rparr>
                       else None)))"
proof (intro conjI allI impI)
  show "fst (selectExits ctx now positions stalenessState)
     = List.map_filter (exitDecision ctx now) positions"
    by (rule selectExits_map_filter)
  show "length (fst (selectExits ctx now positions stalenessState)) \<le> length positions"
    unfolding selectExits_map_filter by (rule length_map_filter_le)
next
  fix pos :: Position assume "asset_class pos = ''us_option''"
  then show "exitDecision ctx now pos = checkOptionsExit pos (config ctx)"
    by (simp add: exitDecision_def)
next
  fix pos :: Position
  assume o: "asset_class pos = ''us_option''"
  then show "exitDecision ctx now pos
              = (if \<not> options_enabled (config ctx) then None
                 else if optionsPnlPct pos \<le> - options_stop_loss_pct (config ctx)
                 then Some \<lparr>sell_symbol = pos_symbol pos, sell_reason = OptionsStopLoss (optionsPnlPct pos)\<rparr>
                 else if optionsPnlPct pos \<ge> options_take_profit_pct (config ctx)
                 then Some \<lparr>sell_symbol = pos_symbol pos, sell_reason = OptionsTakeProfit (optionsPnlPct pos)\<rparr>
                 else None)"
    by (rule exitDecision_option)
  from o show "fst (selectExits ctx now [pos] stalenessState)
              = (if \<not> options_enabled (config ctx) then []
                 else if optionsPnlPct pos \<le> - options_stop_loss_pct (config ctx)
                 then [\<lparr>sell_symbol = pos_symbol pos, sell_reason = OptionsStopLoss (optionsPnlPct pos)\<rparr>]
                 else if optionsPnlPct pos \<ge> options_take_profit_pct (config ctx)
                 then [\<lparr>sell_symbol = pos_symbol pos, sell_reason = OptionsTakeProfit (optionsPnlPct pos)\<rparr>]
                 else [])"
    by (simp add: selectExits_single exitDecision_option)
next
  fix pos :: Position
  assume a: "asset_class pos \<noteq> ''us_option''
          \<and> jsGe (costBasisPnlPct pos) (take_profit_pct (config ctx))"
  then show d: "exitDecision ctx now pos
              = Some \<lparr>sell_symbol = pos_symbol pos, sell_reason = TakeProfit (costBasisPnlPct pos)\<rparr>"
    by (simp add: exitDecision_def)
  show "fst (selectExits ctx now [pos] stalenessState)
              = [\<lparr>sell_symbol = pos_symbol pos, sell_reason = TakeProfit (costBasisPnlPct pos)\<rparr>]"
    unfolding selectExits_map_filter by (simp add: map_filter_simps d)
next
  fix pos :: Position
  assume "asset_class pos \<noteq> ''us_option''
          \<and> \<not> jsGe (costBasisPnlPct pos) (take_profit_pct (config ctx))
          \<and> jsLe (costBasisPnlPct pos) (- stop_loss_pct (config ctx))"
  then show "exitDecision ctx now pos
              = Some \<lparr>sell_symbol = pos_symbol pos, sell_reason = StopLoss (costBasisPnlPct pos)\<rparr>"
    by (simp add: exitDecision_def)
next
  fix pos :: Position
  assume a: "asset_class pos \<noteq> ''us_option''
          \<and> \<not> jsGe (costBasisPnlPct pos) (take_profit_pct (config ctx))
          \<and> \<not> jsLe (costBasisPnlPct pos) (- stop_loss_pct (config ctx))"
  obtain res where res: "analyzeStaleness (config ctx) now (current_price pos)
                   (case socialSnapshotCache ctx (pos_symbol pos) of None \<Rightarrow> 0 | Some v \<Rightarrow> v)
                   (positionEntries ctx (pos_symbol pos)) = Some res"
    using analyzeStaleness_not_None by blast
  have "exitDecision ctx now pos
                    = (if stale_position_enabled (config ctx) \<and> isStale res
                       then Some \<lparr>sell_symbol = pos_symbol pos, sell_reason = Stale (stale_reason res)\<rparr>
                       else None)"
    using a res by (simp add: exitDecision_def)
  with res show "\<exists>res. analyzeStaleness (config ctx) now (current_price pos)
                      (case socialSnapshotCache ctx (pos_symbol pos) of None \<Rightarrow> 0 | Some v \<Rightarrow> v)
                      (positionEntries ctx (pos_symbol pos)) = Some res
                  \<and> exitDecision ctx now pos
                    = (if stale_position_enabled (config ctx) \<and> isStale res
                       then Some \<lparr>sell_symbol = pos_symbol pos, sell_reason = Stale (stale_reason res)\<rparr>
                       else None)"
    by blast
qed

text \<open>
  The amended claim at a stock that is stale (held 10 days, social volume gone) and up
  20%: the only candidate is the take profit; and at an option down 60%: it is sold
  with an options stop loss, and kept when options are disabled.
\<close>

theorem exit_precedence_witness:
  "map_option isStale (analyzeStaleness (config exampleContext) 864000000 (current_price stockPosition) 0
      (positionEntries exampleContext (pos_symbol stockPosition))) = Some True
   \<and> jsGe (costBasisPnlPct stockPosition) (take_profit_pct (config exampleContext))
   \<and> fst (selectExits exampleContext 864000000 [stockPosition] Map.empty)
       = [\<lparr>sell_symbol = ''Y'', sell_reason = TakeProfit (Fin 20)\<rparr>]
   \<and> fst (selectExits exampleContext 864000000 [optionDown60] Map.empty)
       = [\<lparr>sell_symbol = ''X4'', sell_reason = OptionsStopLoss (- 60)\<rparr>]
   \<and> fst (selectExits optionsOffContext 864000000 [optionDown60] Map.empty) = []"
proof -
  have c: "costBasisPnlPct stockPosition = Fin 20"
    by (simp add: example_defs costBasisPnlPct_def jsDiv_def)
  have h: "asset_class stockPosition \<noteq> ''us_option''
      \<and> jsGe (costBasisPnlPct stockPosition) (take_profit_pct (config exampleContext))"
    unfolding c by (simp add: example_defs)
  have s: "map_option isStale (analyzeStaleness (config exampleContext) 864000000 (current_price stockPosition) 0
      (positionEntries exampleContext (pos_symbol stockPosition))) = Some True"
    by (simp add: example_defs analyzeStaleness_def holdHours_def holdDays_def safeDiv_def Let_def)
  have o: "asset_class optionDown60 = ''us_option''"
    by (simp add: example_defs)
  have p: "optionsPnlPct optionDown60 = - 60" "pos_symbol optionDown60 = ''X4''"
    "options_enabled (config exampleContext)" "\<not> options_enabled (config optionsOffContext)"
    "options_stop_loss_pct (config exampleContext) = 50"
    by (simp_all add: example_defs optionsPnlPct_def Let_def)
  note th = exit_precedence [of exampleContext 864000000 "[stockPosition]" Map.empty]
  note th5 = th [THEN conjunct2, THEN conjunct2, THEN conjunct2, THEN conjunct2, THEN conjunct1,
      THEN spec, THEN mp, OF h, THEN conjunct2]
  note th4 = th [THEN conjunct2, THEN conjunct2, THEN conjunct2, THEN conjunct1,
      THEN spec, THEN mp, OF o, THEN conjunct2]
  note th4off = exit_precedence [of optionsOffContext 864000000 "[stockPosition]" Map.empty,
      THEN conjunct2, THEN conjunct2, THEN conjunct2, THEN conjunct1,
      THEN spec, THEN mp, OF o, THEN conjunct2]
  have "fst (selectExits exampleContext 864000000 [stockPosition] Map.empty)
       = [\<lparr>sell_symbol = pos_symbol stockPosition,
            sell_reason = TakeProfit (costBasisPnlPct stockPosition)\<rparr>]"
    by (rule th5)
  then have e: "fst (selectExits exampleContext 864000000 [stockPosition] Map.empty)
       = [\<lparr>sell_symbol = ''Y'', sell_reason = TakeProfit (Fin 20)\<rparr>]"
    unfolding c by (simp add: stockPosition_def)
  have e4: "fst (selectExits exampleContext 864000000 [optionDown60] Map.empty)
       = [\<lparr>sell_symbol = ''X4'', sell_reason = OptionsStopLoss (- 60)\<rparr>]"
    using th4 by (simp add: p)
  have e5: "fst (selectExits optionsOffContext 864000000 [optionDown60] Map.empty) = []"
    using th4off by (simp add: p)
  from s h e e4 e5 show ?thesis by simp
qed

end
